theory Spec2Isabelle
  imports Main
begin

section \<open>Data model\<close>

text \<open>
  The pipeline keeps three tables in a database that the Python code reaches through
  \<^verbatim>\<open>SupabaseHook\<close>: artifacts, approvals and pipeline stages. The Python code handles
  rows as dictionaries and compares the \<^verbatim>\<open>type\<close> and \<^verbatim>\<open>status\<close> columns with string
  literals, so both are strings here. Ids are Python ints.

  The \<^verbatim>\<open>content\<close> column holds whatever \<^verbatim>\<open>json.loads\<close> returned for a processor's output.
\<close>

datatype json =
    JNull
  | JBool bool
  | JNum int
  | JStr string
  | JArr "json list"
  | JObj "(string \<times> json) list"

record artifact =
  a_id :: int
  a_name :: string
  a_type :: string
  a_content :: json
  a_createdBy :: string
  a_parentId :: "int option"
  a_status :: string

record approval =
  ap_id :: int
  ap_artifactId :: int
  ap_stakeholderId :: int
  ap_status :: string
  ap_comment :: "string option"

record stage =
  st_orderIndex :: int
  st_artifactType :: string
  st_requiredApprovals :: int

text \<open>
  The dictionaries handed to \<^verbatim>\<open>create_artifact\<close> and \<^verbatim>\<open>create_approval\<close> carry every
  column but the id, which the database assigns.
\<close>

record artifact_data =
  d_name :: string
  d_type :: string
  d_content :: json
  d_createdBy :: string
  d_parentId :: "int option"
  d_status :: string

record approval_data =
  pd_artifactId :: int
  pd_stakeholderId :: int
  pd_status :: string

text \<open>
  The dictionaries handed to the update calls are partial. The callers in the repository
  pass \<^verbatim>\<open>{'status': ...}\<close> to \<^verbatim>\<open>update_artifact\<close> and \<^verbatim>\<open>{'status': ...}\<close> with an optional
  \<^verbatim>\<open>'comment'\<close> to \<^verbatim>\<open>update_approval\<close>; a key that is absent is \<open>None\<close>.
\<close>

record artifact_update =
  u_status :: "string option"

record approval_update =
  pu_status :: "string option"
  pu_comment :: "string option"

text \<open>
  The store is the content of the three tables, rows in insertion order, and the next id of
  the two tables the code inserts into. The table declarations (\<^verbatim>\<open>shared/schema\<close>) are not
  part of the Python sources; ids are taken to be assigned from a counter, as a serial
  primary key does.
\<close>

record store =
  artifacts :: "artifact list"
  approvals :: "approval list"
  pipelineStages :: "stage list"
  next_artifact_id :: int
  next_approval_id :: int

text \<open>
  Every \<^verbatim>\<open>raise\<close> of the modelled code is a value of \<open>error\<close>:
  \<^item> \<open>ArtifactNotFound i\<close>: \<^verbatim>\<open>ValueError("Artifact with ID {i} not found")\<close>;
  \<^item> \<open>NoPipelineStage t\<close>: \<^verbatim>\<open>ValueError("No pipeline stage found for artifact type {t}")\<close>;
  \<^item> \<open>NotOfType i t\<close>: \<^verbatim>\<open>ValueError("Artifact with ID {i} is not a ...")\<close>, the artifact is
    not of the type \<open>t\<close> the operator works on;
  \<^item> \<open>TypeError\<close>: subscripting \<^verbatim>\<open>None\<close>, or a JSON value that is not an object, with a key;
  \<^item> \<open>KeyError k\<close>: a dictionary without the key \<open>k\<close>;
  \<^item> \<open>JSONDecodeError\<close>: \<^verbatim>\<open>json.loads\<close> on the output of a script that printed
    \<^verbatim>\<open>undefined\<close>;
  \<^item> \<open>ProcessorFailure\<close>: \<^verbatim>\<open>NodeExecutor.execute_processor\<close> raised;
  \<^item> \<open>NodeScriptFailed\<close>: the script of a hook method ended with an error and
    \<^verbatim>\<open>_run_node_script\<close> raised.
\<close>

datatype error =
    ArtifactNotFound int
  | NoPipelineStage string
  | NotOfType int string
  | TypeError
  | KeyError string
  | JSONDecodeError
  | ProcessorFailure
  | NodeScriptFailed

section \<open>SupabaseHook\<close>

text \<open>
  Each hook method runs one query. A method that only reads returns its value; a method that
  writes returns its value (or the error it raises) and the store after the call. A query
  that selects one row takes the first row that matches. The \<^verbatim>\<open>updatedAt\<close> column, which the
  update queries set to the time of the call, is not part of the model.
\<close>

definition get_artifact :: "store \<Rightarrow> int \<Rightarrow> artifact option" where
  "get_artifact s artifact_id = find (\<lambda>a. a_id a = artifact_id) (artifacts s)"

definition create_artifact :: "store \<Rightarrow> artifact_data \<Rightarrow> artifact \<times> store" where
  "create_artifact s d =
     (let a = \<lparr>a_id = next_artifact_id s, a_name = d_name d, a_type = d_type d,
               a_content = d_content d, a_createdBy = d_createdBy d,
               a_parentId = d_parentId d, a_status = d_status d\<rparr>
      in (a, s\<lparr>artifacts := artifacts s @ [a],
               next_artifact_id := next_artifact_id s + 1\<rparr>))"

definition set_artifact :: "artifact_update \<Rightarrow> artifact \<Rightarrow> artifact" where
  "set_artifact d a = (case u_status d of None \<Rightarrow> a | Some v \<Rightarrow> a\<lparr>a_status := v\<rparr>)"

text \<open>
  \<^verbatim>\<open>update_artifact\<close> updates the rows with the given id and prints the first updated row.
  When no row has the id, the script prints \<^verbatim>\<open>undefined\<close>, which \<^verbatim>\<open>json.loads\<close> rejects.
\<close>

definition update_artifact ::
  "store \<Rightarrow> int \<Rightarrow> artifact_update \<Rightarrow> (error + artifact) \<times> store" where
  "update_artifact s artifact_id d =
     (let s' = s\<lparr>artifacts :=
                 map (\<lambda>a. if a_id a = artifact_id then set_artifact d a else a) (artifacts s)\<rparr>
      in case find (\<lambda>a. a_id a = artifact_id) (artifacts s') of
           None \<Rightarrow> (Inl JSONDecodeError, s')
         | Some a \<Rightarrow> (Inr a, s'))"

definition create_approval :: "store \<Rightarrow> approval_data \<Rightarrow> approval \<times> store" where
  "create_approval s d =
     (let p = \<lparr>ap_id = next_approval_id s, ap_artifactId = pd_artifactId d,
               ap_stakeholderId = pd_stakeholderId d, ap_status = pd_status d,
               ap_comment = None\<rparr>
      in (p, s\<lparr>approvals := approvals s @ [p],
               next_approval_id := next_approval_id s + 1\<rparr>))"

definition set_approval :: "approval_update \<Rightarrow> approval \<Rightarrow> approval" where
  "set_approval d p =
     (let p1 = (case pu_status d of None \<Rightarrow> p | Some v \<Rightarrow> p\<lparr>ap_status := v\<rparr>)
      in case pu_comment d of None \<Rightarrow> p1 | Some c \<Rightarrow> p1\<lparr>ap_comment := Some c\<rparr>)"

text \<open>
  \<^verbatim>\<open>update_approval\<close> has the shape of \<^verbatim>\<open>update_artifact\<close>: its only condition is on the
  id of the row.
\<close>

definition update_approval ::
  "store \<Rightarrow> int \<Rightarrow> approval_update \<Rightarrow> (error + approval) \<times> store" where
  "update_approval s approval_id d =
     (let s' = s\<lparr>approvals :=
                 map (\<lambda>p. if ap_id p = approval_id then set_approval d p else p) (approvals s)\<rparr>
      in case find (\<lambda>p. ap_id p = approval_id) (approvals s') of
           None \<Rightarrow> (Inl JSONDecodeError, s')
         | Some p \<Rightarrow> (Inr p, s'))"

definition get_approvals_for_artifact :: "store \<Rightarrow> int \<Rightarrow> approval list" where
  "get_approvals_for_artifact s artifact_id =
     filter (\<lambda>p. ap_artifactId p = artifact_id) (approvals s)"

definition get_pipeline_stage_by_order :: "store \<Rightarrow> int \<Rightarrow> stage option" where
  "get_pipeline_stage_by_order s order_index =
     find (\<lambda>st. st_orderIndex st = order_index) (pipelineStages s)"

section \<open>ApprovalOperator\<close>

text \<open>
  The scan \<^verbatim>\<open>for i in range(6)\<close> of \<^verbatim>\<open>ApprovalOperator.execute\<close>: the first stage, by
  order index, whose \<^verbatim>\<open>artifactType\<close> is the artifact's type.
\<close>

fun find_stage :: "store \<Rightarrow> string \<Rightarrow> int list \<Rightarrow> stage option" where
  "find_stage s t [] = None"
| "find_stage s t (i # rest) =
     (case get_pipeline_stage_by_order s i of
        None \<Rightarrow> find_stage s t rest
      | Some potential_stage \<Rightarrow>
          if st_artifactType potential_stage = t then Some potential_stage
          else find_stage s t rest)"

definition range6 :: "int list" where
  "range6 = [0, 1, 2, 3, 4, 5]"

definition approved_count :: "approval list \<Rightarrow> int" where
  "approved_count ps = int (length (filter (\<lambda>p. ap_status p = ''APPROVED'') ps))"

definition ApprovalOperator_execute :: "store \<Rightarrow> int \<Rightarrow> (error + bool) \<times> store" where
  "ApprovalOperator_execute s artifact_id =
     (case get_artifact s artifact_id of
        None \<Rightarrow> (Inl (ArtifactNotFound artifact_id), s)
      | Some artifact \<Rightarrow>
          (case find_stage s (a_type artifact) range6 of
             None \<Rightarrow> (Inl (NoPipelineStage (a_type artifact)), s)
           | Some stage \<Rightarrow>
               if st_requiredApprovals stage
                    \<le> approved_count (get_approvals_for_artifact s artifact_id)
               then (case update_artifact s artifact_id \<lparr>u_status = Some ''APPROVED''\<rparr> of
                       (Inl e, s') \<Rightarrow> (Inl e, s')
                     | (Inr updated, s') \<Rightarrow> (Inr True, s'))
               else (Inr False, s)))"

text \<open>
  \<^verbatim>\<open>ManualApprovalOperator.execute\<close>: the decision of one stakeholder on one artifact. It
  writes the first approval row of that stakeholder for the artifact; when the decision is a
  rejection it then writes the artifact as well. The comment goes into the update only when
  it is neither \<^verbatim>\<open>None\<close> nor empty.
\<close>

definition decision_status :: "bool \<Rightarrow> string" where
  "decision_status approve = (if approve then ''APPROVED'' else ''REJECTED'')"

definition update_data :: "bool \<Rightarrow> string option \<Rightarrow> approval_update" where
  "update_data approve comment =
     \<lparr>pu_status = Some (decision_status approve),
      pu_comment = (case comment of None \<Rightarrow> None
                    | Some c \<Rightarrow> if c = [] then None else Some c)\<rparr>"

definition ManualApprovalOperator_execute ::
  "store \<Rightarrow> int \<Rightarrow> int \<Rightarrow> bool \<Rightarrow> string option \<Rightarrow> (error + unit) \<times> store" where
  "ManualApprovalOperator_execute s artifact_id stakeholder_id approve comment =
     (case filter (\<lambda>a. ap_stakeholderId a = stakeholder_id)
             (get_approvals_for_artifact s artifact_id) of
        [] \<Rightarrow> (Inr (), s)
      | approval # others \<Rightarrow>
          (case update_approval s (ap_id approval) (update_data approve comment) of
             (Inl e, s1) \<Rightarrow> (Inl e, s1)
           | (Inr updated, s1) \<Rightarrow>
               if approve then (Inr (), s1)
               else (case update_artifact s1 artifact_id \<lparr>u_status = Some ''REJECTED''\<rparr> of
                       (Inl e, s2) \<Rightarrow> (Inl e, s2)
                     | (Inr rejected, s2) \<Rightarrow> (Inr (), s2))))"

section \<open>The DAG's approval check\<close>

text \<open>
  \<^verbatim>\<open>check_artifact_approvals\<close> of the DAG file does not test the artifact it read before the
  scan, so \<^verbatim>\<open>artifact['type']\<close> raises when a stage is found at some index and the artifact
  is \<^verbatim>\<open>None\<close>. The function only reads.
\<close>

fun find_stage_for :: "store \<Rightarrow> artifact option \<Rightarrow> int list \<Rightarrow> error + stage option" where
  "find_stage_for s artifact [] = Inr None"
| "find_stage_for s artifact (i # rest) =
     (case get_pipeline_stage_by_order s i of
        None \<Rightarrow> find_stage_for s artifact rest
      | Some potential_stage \<Rightarrow>
          (case artifact of
             None \<Rightarrow> Inl TypeError
           | Some a \<Rightarrow>
               if st_artifactType potential_stage = a_type a then Inr (Some potential_stage)
               else find_stage_for s artifact rest))"

definition check_artifact_approvals :: "store \<Rightarrow> int \<Rightarrow> error + bool" where
  "check_artifact_approvals s artifact_id =
     (case find_stage_for s (get_artifact s artifact_id) range6 of
        Inl e \<Rightarrow> Inl e
      | Inr None \<Rightarrow> Inr True
      | Inr (Some stage) \<Rightarrow>
          Inr (st_requiredApprovals stage
                 \<le> approved_count (get_approvals_for_artifact s artifact_id)))"

section \<open>Generator operators\<close>

text \<open>
  \<^verbatim>\<open>NodeExecutor.execute_processor\<close> runs an external script on the input dictionary and
  parses what it prints. The transformation is outside the pipeline, so it is a parameter
  \<open>execute_processor\<close> of the operators: from the processor's name and its input to the parsed
  output or the error raised. The operator's task id, which \<^verbatim>\<open>createdBy\<close> records, is a
  parameter as well.
\<close>

type_synonym processor = "string \<Rightarrow> json \<Rightarrow> error + json"

text \<open>Subscripting a parsed JSON value with a key, \<^verbatim>\<open>result['zod_schema']\<close>.\<close>

definition subscript :: "json \<Rightarrow> string \<Rightarrow> error + json" where
  "subscript v k =
     (case v of
        JObj kvs \<Rightarrow> (case map_of kvs k of None \<Rightarrow> Inl (KeyError k) | Some x \<Rightarrow> Inr x)
      | JNull \<Rightarrow> Inl TypeError
      | JBool b \<Rightarrow> Inl TypeError
      | JNum n \<Rightarrow> Inl TypeError
      | JStr str \<Rightarrow> Inl TypeError
      | JArr xs \<Rightarrow> Inl TypeError)"

definition PRDProcessorOperator_execute ::
  "processor \<Rightarrow> string \<Rightarrow> store \<Rightarrow> int \<Rightarrow> (error + int) \<times> store" where
  "PRDProcessorOperator_execute execute_processor task_id s artifact_id =
     (case get_artifact s artifact_id of
        None \<Rightarrow> (Inl (ArtifactNotFound artifact_id), s)
      | Some prd_artifact \<Rightarrow>
          if a_type prd_artifact \<noteq> ''PRD'' then (Inl (NotOfType artifact_id ''PRD''), s)
          else
            (case execute_processor ''prd_processor''
                    (JObj [(''prd'', a_content prd_artifact)]) of
               Inl e \<Rightarrow> (Inl e, s)
             | Inr result \<Rightarrow>
                 (let (created_artifact, s1) =
                        create_artifact s
                          \<lparr>d_name = ''DDD Model for '' @ a_name prd_artifact,
                           d_type = ''DDD_MODEL'',
                           d_content = result,
                           d_createdBy = task_id,
                           d_parentId = Some (a_id prd_artifact),
                           d_status = ''PENDING_APPROVAL''\<rparr>;
                      stage = get_pipeline_stage_by_order s1 1;
                      (approval, s2) =
                        create_approval s1
                          \<lparr>pd_artifactId = a_id created_artifact,
                           pd_stakeholderId = 1,
                           pd_status = ''PENDING''\<rparr>
                  in (Inr (a_id created_artifact), s2))))"

definition seed_schema_approvals :: "store \<Rightarrow> int \<Rightarrow> int \<Rightarrow> store" where
  "seed_schema_approvals s zod_id db_id =
     (let (zod_approval1, s1) =
            create_approval s
              \<lparr>pd_artifactId = zod_id, pd_stakeholderId = 2, pd_status = ''PENDING''\<rparr>;
          (zod_approval2, s2) =
            create_approval s1
              \<lparr>pd_artifactId = zod_id, pd_stakeholderId = 4, pd_status = ''PENDING''\<rparr>;
          (db_approval1, s3) =
            create_approval s2
              \<lparr>pd_artifactId = db_id, pd_stakeholderId = 3, pd_status = ''PENDING''\<rparr>;
          (db_approval2, s4) =
            create_approval s3
              \<lparr>pd_artifactId = db_id, pd_stakeholderId = 5, pd_status = ''PENDING''\<rparr>
      in s4)"

text \<open>
  \<^verbatim>\<open>SchemaGeneratorOperator.execute\<close> calls the processor once and takes the two payloads
  from its result. The dictionary of the second artifact is built after the first artifact
  has been saved, so a result without \<^verbatim>\<open>'db_schema'\<close> raises with the first artifact already
  in the store. The operator returns the two ids.
\<close>

definition SchemaGeneratorOperator_execute ::
  "processor \<Rightarrow> string \<Rightarrow> store \<Rightarrow> int \<Rightarrow> (error + int \<times> int) \<times> store" where
  "SchemaGeneratorOperator_execute execute_processor task_id s artifact_id =
     (case get_artifact s artifact_id of
        None \<Rightarrow> (Inl (ArtifactNotFound artifact_id), s)
      | Some typespec_artifact \<Rightarrow>
          if a_type typespec_artifact \<noteq> ''TYPESPEC''
          then (Inl (NotOfType artifact_id ''TYPESPEC''), s)
          else
            (case execute_processor ''schema_generator''
                    (JObj [(''typespec'', a_content typespec_artifact)]) of
               Inl e \<Rightarrow> (Inl e, s)
             | Inr result \<Rightarrow>
                 (case subscript result ''zod_schema'' of
                    Inl e \<Rightarrow> (Inl e, s)
                  | Inr zod_schema \<Rightarrow>
                      (let (created_zod_artifact, s1) =
                             create_artifact s
                               \<lparr>d_name = ''Zod Schema for '' @ a_name typespec_artifact,
                                d_type = ''ZOD_SCHEMA'',
                                d_content = zod_schema,
                                d_createdBy = task_id,
                                d_parentId = Some (a_id typespec_artifact),
                                d_status = ''PENDING_APPROVAL''\<rparr>
                       in case subscript result ''db_schema'' of
                            Inl e \<Rightarrow> (Inl e, s1)
                          | Inr db_schema \<Rightarrow>
                              (let (created_db_artifact, s2) =
                                     create_artifact s1
                                       \<lparr>d_name =
                                          ''Database Schema for '' @ a_name typespec_artifact,
                                        d_type = ''DB_SCHEMA'',
                                        d_content = db_schema,
                                        d_createdBy = task_id,
                                        d_parentId = Some (a_id typespec_artifact),
                                        d_status = ''PENDING_APPROVAL''\<rparr>;
                                   zod_stage = get_pipeline_stage_by_order s2 4;
                                   db_stage = get_pipeline_stage_by_order s2 5
                               in (Inr (a_id created_zod_artifact, a_id created_db_artifact),
                                   seed_schema_approvals s2 (a_id created_zod_artifact)
                                     (a_id created_db_artifact)))))))"

section \<open>The end of the DAG\<close>

text \<open>
  The DAG gives its tasks their artifact ids as Python values: an int, a text or \<^verbatim>\<open>None\<close>. A
  hook method hands \<^verbatim>\<open>str(...)\<close> of the value to its script, and the query compares the id
  column with that text. Which id, if any, the database reads from a text is decided by the
  table declarations, which are not part of the Python sources: it is the parameter \<open>read_id\<close>
  of the definitions below. For an int the text is its numeral, and the id read is that int.
\<close>

datatype py_value = PyInt int | PyStr string | PyNone

type_synonym reader = "string \<Rightarrow> int option"

definition id_of :: "reader \<Rightarrow> py_value \<Rightarrow> int option" where
  "id_of read_id v =
     (case v of PyInt i \<Rightarrow> Some i | PyStr t \<Rightarrow> read_id t | PyNone \<Rightarrow> read_id ''None'')"

text \<open>
  \<^verbatim>\<open>ApprovalOperator.execute\<close> on the value the DAG has given the task. Its first call is
  \<^verbatim>\<open>hook.get_artifact\<close>; when the database reads no id from the text, the query fails, the
  script ends with an error and the hook raises. Otherwise the run is the run on the id.
\<close>

definition ApprovalOperator_task ::
  "reader \<Rightarrow> store \<Rightarrow> py_value \<Rightarrow> (error + bool) \<times> store" where
  "ApprovalOperator_task read_id s artifact_id =
     (case id_of read_id artifact_id of
        None \<Rightarrow> (Inl NodeScriptFailed, s)
      | Some i \<Rightarrow> ApprovalOperator_execute s i)"

text \<open>
  \<^verbatim>\<open>finalize_pipeline\<close> reads the two schema artifacts, prints their names and returns the
  completion record with the two ids as it got them.
\<close>

record completion =
  zod_schema_id :: py_value
  db_schema_id :: py_value
  status :: string

definition finalize_pipeline ::
  "reader \<Rightarrow> store \<Rightarrow> py_value \<Rightarrow> py_value \<Rightarrow> error + completion" where
  "finalize_pipeline read_id s zod_id db_id =
     (case id_of read_id zod_id of
        None \<Rightarrow> Inl NodeScriptFailed
      | Some z \<Rightarrow>
          (case id_of read_id db_id of
             None \<Rightarrow> Inl NodeScriptFailed
           | Some d \<Rightarrow>
               (case get_artifact s z of
                  None \<Rightarrow> Inl TypeError
                | Some zod_schema \<Rightarrow>
                    (case get_artifact s d of
                       None \<Rightarrow> Inl TypeError
                     | Some db_schema \<Rightarrow>
                         Inr \<lparr>zod_schema_id = zod_id, db_schema_id = db_id,
                              status = ''completed''\<rparr>))))"

text \<open>
  The DAG builds the two checks of the branch with these artifact ids.
  \<^verbatim>\<open>ApprovalOperator\<close> declares no template fields, so the scheduler does not render the
  text: \<^verbatim>\<open>execute\<close> gets it as it is written here.
\<close>

definition check_zod_approvals_artifact_id :: string where
  \<open>check_zod_approvals_artifact_id =
     ''{{ task_instance.xcom_pull(task_ids="generate_schemas", key="zod_schema_id") }}''\<close>

definition check_db_approvals_artifact_id :: string where
  \<open>check_db_approvals_artifact_id =
     ''{{ task_instance.xcom_pull(task_ids="generate_schemas", key="db_schema_id") }}''\<close>

text \<open>
  The DAG ends with \<^verbatim>\<open>[check_zod_approvals, check_db_approvals] >> finalize_task\<close>, where
  \<^verbatim>\<open>finalize_task\<close> has the trigger rule \<^verbatim>\<open>ALL_SUCCESS\<close>. The scheduler gives a task instance
  the state \<open>success\<close> when its \<^verbatim>\<open>execute\<close> returns, whatever value it returns, and \<open>failed\<close>
  when it raises; a task with \<^verbatim>\<open>ALL_SUCCESS\<close> runs when every upstream task has succeeded.
  The two checks are run one after the other. \<^verbatim>\<open>finalize_pipeline\<close> takes its two ids from
  \<^verbatim>\<open>xcom_pull\<close> under the keys \<^verbatim>\<open>zod_schema_id\<close> and \<^verbatim>\<open>db_schema_id\<close>; what the pull returns for
  a task id and a key is the parameter \<open>xcom_pull\<close>. The result is \<open>None\<close> when
  \<^verbatim>\<open>finalize_pipeline\<close> is not run.
\<close>

datatype task_state = success | failed

definition state_of :: "error + 'a \<Rightarrow> task_state" where
  "state_of r = (case r of Inl e \<Rightarrow> failed | Inr v \<Rightarrow> success)"

definition ALL_SUCCESS :: "task_state list \<Rightarrow> bool" where
  "ALL_SUCCESS upstream = list_all (\<lambda>t. t = success) upstream"

definition finalize_task ::
  "reader \<Rightarrow> (string \<Rightarrow> string \<Rightarrow> py_value) \<Rightarrow> store
     \<Rightarrow> (error + completion) option \<times> store" where
  "finalize_task read_id xcom_pull s =
     (let (check_zod_approvals, s1) =
            ApprovalOperator_task read_id s (PyStr check_zod_approvals_artifact_id);
          (check_db_approvals, s2) =
            ApprovalOperator_task read_id s1 (PyStr check_db_approvals_artifact_id)
      in if ALL_SUCCESS [state_of check_zod_approvals, state_of check_db_approvals]
         then (Some (finalize_pipeline read_id s2
                       (xcom_pull ''generate_schemas'' ''zod_schema_id'')
                       (xcom_pull ''generate_schemas'' ''db_schema_id'')), s2)
         else (None, s2))"

section \<open>Example stores\<close>

text \<open>
  Concrete contents of the database, on which the theorems below are instantiated. The stage
  table has the six stages of the pipeline, with as many required approvals as the
  generator of each stage seeds.
\<close>

definition example_stages :: "stage list" where
  "example_stages =
     [\<lparr>st_orderIndex = 0, st_artifactType = ''PRD'', st_requiredApprovals = 1\<rparr>,
      \<lparr>st_orderIndex = 1, st_artifactType = ''DDD_MODEL'', st_requiredApprovals = 1\<rparr>,
      \<lparr>st_orderIndex = 2, st_artifactType = ''API_SPEC'', st_requiredApprovals = 2\<rparr>,
      \<lparr>st_orderIndex = 3, st_artifactType = ''TYPESPEC'', st_requiredApprovals = 1\<rparr>,
      \<lparr>st_orderIndex = 4, st_artifactType = ''ZOD_SCHEMA'', st_requiredApprovals = 2\<rparr>,
      \<lparr>st_orderIndex = 5, st_artifactType = ''DB_SCHEMA'', st_requiredApprovals = 2\<rparr>]"

definition api_stage :: stage where
  "api_stage = \<lparr>st_orderIndex = 2, st_artifactType = ''API_SPEC'', st_requiredApprovals = 2\<rparr>"

definition api_artifact :: artifact where
  "api_artifact =
     \<lparr>a_id = 3, a_name = ''API Specification for DDD Model for Checkout Flow'',
      a_type = ''API_SPEC'', a_content = JObj [], a_createdBy = ''generate_api'',
      a_parentId = Some 2, a_status = ''PENDING_APPROVAL''\<rparr>"

definition vote :: "int \<Rightarrow> int \<Rightarrow> int \<Rightarrow> string \<Rightarrow> approval" where
  "vote i artifact_id stakeholder_id st =
     \<lparr>ap_id = i, ap_artifactId = artifact_id, ap_stakeholderId = stakeholder_id,
      ap_status = st, ap_comment = None\<rparr>"

text \<open>An API specification with two approvals and one rejection.\<close>

definition store_voted :: store where
  "store_voted =
     \<lparr>artifacts = [api_artifact],
      approvals = [vote 1 3 1 ''APPROVED'', vote 2 3 2 ''REJECTED'', vote 3 3 3 ''APPROVED''],
      pipelineStages = example_stages, next_artifact_id = 4, next_approval_id = 4\<rparr>"

text \<open>An API specification with one of its two approvals still pending.\<close>

definition store_waiting :: store where
  "store_waiting =
     \<lparr>artifacts = [api_artifact],
      approvals = [vote 1 3 1 ''APPROVED'', vote 2 3 2 ''PENDING''],
      pipelineStages = example_stages, next_artifact_id = 4, next_approval_id = 3\<rparr>"

text \<open>A requirements document whose single approval has been given.\<close>

definition prd_artifact :: artifact where
  "prd_artifact =
     \<lparr>a_id = 1, a_name = ''Checkout Flow'', a_type = ''PRD'', a_content = JObj [],
      a_createdBy = ''airflow'', a_parentId = None, a_status = ''PENDING_APPROVAL''\<rparr>"

definition store_approved :: store where
  "store_approved =
     \<lparr>artifacts = [prd_artifact], approvals = [vote 1 1 1 ''APPROVED''],
      pipelineStages = example_stages, next_artifact_id = 2, next_approval_id = 2\<rparr>"

text \<open>A requirements document whose type has no stage in the table.\<close>

definition store_unstaged :: store where
  "store_unstaged =
     \<lparr>artifacts = [prd_artifact], approvals = [vote 1 1 1 ''PENDING''],
      pipelineStages =
        [\<lparr>st_orderIndex = 1, st_artifactType = ''DDD_MODEL'', st_requiredApprovals = 1\<rparr>],
      next_artifact_id = 2, next_approval_id = 2\<rparr>"

text \<open>
  The two schema artifacts after the branch stage, both approved by their two stakeholders.
\<close>

definition zod_artifact :: artifact where
  "zod_artifact =
     \<lparr>a_id = 5, a_name = ''Zod Schema for TypeSpec'', a_type = ''ZOD_SCHEMA'',
      a_content = JObj [], a_createdBy = ''generate_schemas'', a_parentId = Some 4,
      a_status = ''APPROVED''\<rparr>"

definition db_artifact :: artifact where
  "db_artifact =
     \<lparr>a_id = 6, a_name = ''Database Schema for TypeSpec'', a_type = ''DB_SCHEMA'',
      a_content = JObj [], a_createdBy = ''generate_schemas'', a_parentId = Some 4,
      a_status = ''APPROVED''\<rparr>"

definition store_joined :: store where
  "store_joined =
     \<lparr>artifacts = [zod_artifact, db_artifact],
      approvals = [vote 1 5 2 ''APPROVED'', vote 2 5 4 ''APPROVED'',
                   vote 3 6 3 ''APPROVED'', vote 4 6 5 ''APPROVED''],
      pipelineStages = example_stages, next_artifact_id = 7, next_approval_id = 5\<rparr>"

text \<open>
  A database that reads an id from a text when the text is a decimal numeral, with or without
  a minus sign, and from no other text.
\<close>

definition digit_value :: "char \<Rightarrow> nat option" where
  "digit_value c =
     (let n = (of_char c :: nat) in if 48 \<le> n \<and> n \<le> 57 then Some (n - 48) else None)"

fun digits_value :: "nat \<Rightarrow> string \<Rightarrow> nat option" where
  "digits_value acc [] = Some acc"
| "digits_value acc (c # cs) =
     (case digit_value c of None \<Rightarrow> None | Some d \<Rightarrow> digits_value (10 * acc + d) cs)"

definition decimal :: reader where
  "decimal t =
     (case t of
        [] \<Rightarrow> None
      | c # cs \<Rightarrow>
          if c = CHR ''-''
          then (case cs of [] \<Rightarrow> None | d # ds \<Rightarrow> map_option (\<lambda>n. - int n) (digits_value 0 cs))
          else map_option int (digits_value 0 t))"

text \<open>
  A processor that succeeds for the requirements processor and the schema generator, and the
  stores the two generators are run on: a requirements document right after its creation, and
  an approved TypeSpec artifact.
\<close>

definition example_processor :: processor where
  "example_processor name input =
     (if name = ''prd_processor'' then Inr (JObj [(''entities'', JArr [])])
      else if name = ''schema_generator''
      then Inr (JObj [(''zod_schema'', JStr ''z''), (''db_schema'', JStr ''d'')])
      else Inl ProcessorFailure)"

definition typespec_artifact :: artifact where
  "typespec_artifact =
     \<lparr>a_id = 4, a_name = ''TypeSpec'', a_type = ''TYPESPEC'', a_content = JObj [],
      a_createdBy = ''generate_typespec'', a_parentId = Some 3, a_status = ''APPROVED''\<rparr>"

definition store_typespec :: store where
  "store_typespec =
     \<lparr>artifacts = [typespec_artifact], approvals = [vote 1 4 3 ''APPROVED''],
      pipelineStages = example_stages, next_artifact_id = 5, next_approval_id = 2\<rparr>"

definition store_seeded :: store where
  "store_seeded =
     \<lparr>artifacts = [prd_artifact], approvals = [vote 1 1 1 ''PENDING''],
      pipelineStages = example_stages, next_artifact_id = 2, next_approval_id = 2\<rparr>"

section \<open>Auxiliary notions\<close>

text \<open>
  The store after \<^verbatim>\<open>update_approval\<close> has written a decision on the rows that carry the id
  of the approval \<open>p\<close>.
\<close>

definition decided :: "store \<Rightarrow> approval \<Rightarrow> bool \<Rightarrow> string option \<Rightarrow> store" where
  "decided s p approve c =
     s\<lparr>approvals :=
         map (\<lambda>q. if ap_id q = ap_id p then set_approval (update_data approve c) q else q)
           (approvals s)\<rparr>"


definition approvals_allocated :: "store \<Rightarrow> bool" where
  "approvals_allocated s = list_all (\<lambda>p. ap_artifactId p < next_artifact_id s) (approvals s)"

definition children :: "store \<Rightarrow> int \<Rightarrow> string \<Rightarrow> artifact list" where
  "children s parent t =
     filter (\<lambda>b. a_parentId b = Some parent \<and> a_type b = t) (artifacts s)"

section \<open>Facts about the hook\<close>

lemmas example_defs = example_stages_def api_stage_def api_artifact_def vote_def
  store_voted_def store_waiting_def get_artifact_def get_pipeline_stage_by_order_def range6_def

lemma get_artifact_SomeD:
  "get_artifact s i = Some a \<Longrightarrow> a_id a = i \<and> a \<in> set (artifacts s)"
  unfolding get_artifact_def by (auto simp: find_Some_iff)

lemma find_map_upd:
  "find (\<lambda>a. a_id a = i) xs = Some a \<Longrightarrow>
   find (\<lambda>a. a_id a = i) (map (\<lambda>a. if a_id a = i then set_artifact d a else a) xs)
     = Some (set_artifact d a)"
  by (induction xs) (auto simp: set_artifact_def split: option.splits)

lemma find_map_upd_None:
  "find (\<lambda>a. a_id a = i) xs = None \<Longrightarrow>
   map (\<lambda>a. if a_id a = i then set_artifact d a else a) xs = xs"
  by (induction xs) (auto split: if_splits)

lemma update_artifact_found:
  "get_artifact s i = Some a \<Longrightarrow>
   update_artifact s i d =
     (Inr (set_artifact d a),
      s\<lparr>artifacts := map (\<lambda>a. if a_id a = i then set_artifact d a else a) (artifacts s)\<rparr>)"
  unfolding get_artifact_def update_artifact_def by (simp add: find_map_upd Let_def)

lemma update_artifact_missing:
  "get_artifact s i = None \<Longrightarrow> update_artifact s i d = (Inl JSONDecodeError, s)"
  unfolding get_artifact_def update_artifact_def
  by (simp add: find_map_upd_None Let_def)

lemma ApprovalOperator_execute_cases:
  "ApprovalOperator_execute s i =
     (case get_artifact s i of
        None \<Rightarrow> (Inl (ArtifactNotFound i), s)
      | Some a \<Rightarrow>
          (case find_stage s (a_type a) range6 of
             None \<Rightarrow> (Inl (NoPipelineStage (a_type a)), s)
           | Some st \<Rightarrow>
               if st_requiredApprovals st \<le> approved_count (get_approvals_for_artifact s i)
               then (Inr True,
                     s\<lparr>artifacts :=
                         map (\<lambda>a. if a_id a = i then a\<lparr>a_status := ''APPROVED''\<rparr> else a)
                           (artifacts s)\<rparr>)
               else (Inr False, s)))"
  unfolding ApprovalOperator_execute_def
  by (auto simp: update_artifact_found set_artifact_def split: option.splits)

lemma approved_count_for:
  "approved_count (get_approvals_for_artifact s i) =
   int (length (filter (\<lambda>p. ap_artifactId p = i \<and> ap_status p = ''APPROVED'') (approvals s)))"
  unfolding approved_count_def get_approvals_for_artifact_def
  by (simp add: conj_commute)

lemma find_stage_for_Some:
  "find_stage_for s (Some a) is = Inr (find_stage s (a_type a) is)"
  by (induction "is") (auto split: option.splits)

section \<open>Quorum\<close>

text \<open>
  C1. For an artifact whose stage the lookup resolves, the quorum check returns true if and
  only if the number of approval records of that artifact with status APPROVED is at least the
  stage's \<^verbatim>\<open>requiredApprovals\<close>. This holds for \<^verbatim>\<open>ApprovalOperator.execute\<close> and for
  \<^verbatim>\<open>check_artifact_approvals\<close>. Only APPROVED records enter the count, so a REJECTED record
  neither lowers it nor blocks the quorum.
\<close>

theorem quorum_iff_approved_count:
  assumes "get_artifact s artifact_id = Some a"
    and "find_stage s (a_type a) range6 = Some st"
  shows "fst (ApprovalOperator_execute s artifact_id) =
           Inr (st_requiredApprovals st \<le>
                int (length (filter (\<lambda>p. ap_artifactId p = artifact_id \<and> ap_status p = ''APPROVED'')
                       (approvals s))))
         \<and> check_artifact_approvals s artifact_id =
           Inr (st_requiredApprovals st \<le>
                int (length (filter (\<lambda>p. ap_artifactId p = artifact_id \<and> ap_status p = ''APPROVED'')
                       (approvals s))))"
proof -
  have "fst (ApprovalOperator_execute s artifact_id) =
          Inr (st_requiredApprovals st \<le> approved_count (get_approvals_for_artifact s artifact_id))"
    unfolding ApprovalOperator_execute_cases
    using assms by simp
  moreover have "check_artifact_approvals s artifact_id =
          Inr (st_requiredApprovals st \<le> approved_count (get_approvals_for_artifact s artifact_id))"
    unfolding check_artifact_approvals_def
    using assms by (simp add: find_stage_for_Some)
  ultimately show ?thesis by (simp only: approved_count_for)
qed

text \<open>
  On \<open>store_voted\<close> the API specification has two APPROVED records and one REJECTED record, its
  stage requires two approvals, and the quorum is reached.
\<close>

theorem quorum_iff_approved_count_witness:
  "get_artifact store_voted 3 = Some api_artifact
   \<and> find_stage store_voted (a_type api_artifact) range6 = Some api_stage
   \<and> fst (ApprovalOperator_execute store_voted 3) = Inr True
   \<and> check_artifact_approvals store_voted 3 = Inr True"
proof -
  have a: "get_artifact store_voted 3 = Some api_artifact"
    by (simp add: example_defs)
  have b: "find_stage store_voted (a_type api_artifact) range6 = Some api_stage"
    by (simp add: example_defs)
  show ?thesis
    using a b quorum_iff_approved_count [OF a b]
    by (simp add: api_stage_def store_voted_def vote_def)
qed

text \<open>
  C10. When the quorum check finds fewer APPROVED records than the stage requires, it returns
  False, raises nothing and leaves the store as it was. The store changes only when the check
  returns True, which it does only when the approved count meets the required count; the
  change is then the status APPROVED on the rows of the artifact. The approval records are
  the same after every run.
\<close>

theorem quorum_not_met_writes_nothing:
  "(get_artifact s artifact_id = Some a \<and> find_stage s (a_type a) range6 = Some st \<and>
      int (length (filter (\<lambda>p. ap_artifactId p = artifact_id \<and> ap_status p = ''APPROVED'')
             (approvals s))) < st_requiredApprovals st
      \<longrightarrow> ApprovalOperator_execute s artifact_id = (Inr False, s))
   \<and> (fst (ApprovalOperator_execute s artifact_id) \<noteq> Inr True
      \<longrightarrow> snd (ApprovalOperator_execute s artifact_id) = s)
   \<and> (fst (ApprovalOperator_execute s artifact_id) = Inr True
      \<longrightarrow> (\<exists>a st. get_artifact s artifact_id = Some a \<and>
                  find_stage s (a_type a) range6 = Some st \<and>
                  st_requiredApprovals st \<le>
                    int (length (filter (\<lambda>p. ap_artifactId p = artifact_id \<and>
                                             ap_status p = ''APPROVED'') (approvals s)))) \<and>
          snd (ApprovalOperator_execute s artifact_id) =
            s\<lparr>artifacts :=
                map (\<lambda>a. if a_id a = artifact_id then a\<lparr>a_status := ''APPROVED''\<rparr> else a)
                  (artifacts s)\<rparr>)
   \<and> approvals (snd (ApprovalOperator_execute s artifact_id)) = approvals s"
  unfolding ApprovalOperator_execute_cases approved_count_for
  by (auto split: option.splits)

text \<open>
  On \<open>store_waiting\<close> one of the two required approvals is pending: the check returns False
  and the store is unchanged. On \<open>store_voted\<close> it returns True.
\<close>

theorem quorum_not_met_writes_nothing_witness:
  "ApprovalOperator_execute store_waiting 3 = (Inr False, store_waiting)
   \<and> fst (ApprovalOperator_execute store_voted 3) = Inr True
   \<and> map a_status (artifacts (snd (ApprovalOperator_execute store_voted 3))) = [''APPROVED'']"
proof -
  have a: "get_artifact store_waiting 3 = Some api_artifact"
    by (simp add: example_defs)
  have b: "find_stage store_waiting (a_type api_artifact) range6 = Some api_stage"
    by (simp add: example_defs)
  have c: "int (length (filter (\<lambda>p. ap_artifactId p = 3 \<and> ap_status p = ''APPROVED'')
             (approvals store_waiting))) < st_requiredApprovals api_stage"
    by (simp add: api_stage_def store_waiting_def vote_def)
  have d: "fst (ApprovalOperator_execute store_voted 3) = Inr True"
    unfolding ApprovalOperator_execute_cases approved_count_for
    by (simp add: example_defs)
  have "ApprovalOperator_execute store_waiting 3 = (Inr False, store_waiting)"
    using a b c quorum_not_met_writes_nothing [of store_waiting 3 api_artifact api_stage]
    by blast
  moreover have
    "map a_status (artifacts (snd (ApprovalOperator_execute store_voted 3))) = [''APPROVED'']"
    using d quorum_not_met_writes_nothing [of store_voted 3 api_artifact api_stage]
    by (simp add: store_voted_def api_artifact_def)
  ultimately show ?thesis using d by simp
qed

section \<open>Decisions\<close>

lemma first_vote:
  assumes "filter (\<lambda>a. ap_stakeholderId a = sid) (get_approvals_for_artifact s aid) = p # rest"
  shows "p \<in> set (approvals s) \<and> ap_artifactId p = aid \<and> ap_stakeholderId p = sid"
proof -
  have "p \<in> set (filter (\<lambda>a. ap_stakeholderId a = sid) (get_approvals_for_artifact s aid))"
    using assms by simp
  then show ?thesis by (simp add: get_approvals_for_artifact_def)
qed

lemma set_approval_keeps:
  "ap_id (set_approval d p) = ap_id p"
  "ap_artifactId (set_approval d p) = ap_artifactId p"
  "ap_stakeholderId (set_approval d p) = ap_stakeholderId p"
  by (simp_all add: set_approval_def Let_def split: option.splits)

lemma set_approval_status:
  "ap_status (set_approval (update_data approve c) p) = decision_status approve"
  by (simp add: set_approval_def update_data_def Let_def split: option.splits)

lemma find_vote_map:
  "p \<in> set xs \<Longrightarrow>
   find (\<lambda>q. ap_id q = ap_id p) (map (\<lambda>q. if ap_id q = ap_id p then set_approval d q else q) xs)
     \<noteq> None"
  by (induction xs) (auto simp: set_approval_keeps)

lemma update_approval_found:
  assumes "p \<in> set (approvals s)"
  shows "\<exists>u. update_approval s (ap_id p) d =
           (Inr u, s\<lparr>approvals :=
                    map (\<lambda>q. if ap_id q = ap_id p then set_approval d q else q) (approvals s)\<rparr>)"
  using find_vote_map [OF assms, of d]
  unfolding update_approval_def by (auto simp: Let_def split: option.splits)

lemma ManualApprovalOperator_execute_cases:
  assumes "filter (\<lambda>a. ap_stakeholderId a = sid) (get_approvals_for_artifact s aid) = p # rest"
  shows "ManualApprovalOperator_execute s aid sid approve c =
     (if approve then (Inr (), decided s p approve c)
      else (case get_artifact s aid of
              None \<Rightarrow> (Inl JSONDecodeError, decided s p approve c)
            | Some a \<Rightarrow>
                (Inr (),
                 (decided s p approve c)\<lparr>artifacts :=
                    map (\<lambda>a. if a_id a = aid then a\<lparr>a_status := ''REJECTED''\<rparr> else a)
                      (artifacts s)\<rparr>)))"
proof -
  have in_s: "p \<in> set (approvals s)" using first_vote [OF assms] by simp
  obtain u where u: "update_approval s (ap_id p) (update_data approve c) =
      (Inr u, decided s p approve c)"
    using update_approval_found [OF in_s] unfolding decided_def by blast
  have g: "get_artifact (decided s p approve c) aid = get_artifact s aid"
    by (simp add: get_artifact_def decided_def)
  show ?thesis
  proof (cases approve)
    case True
    then show ?thesis
      unfolding ManualApprovalOperator_execute_def using assms u by simp
  next
    case False
    show ?thesis
    proof (cases "get_artifact s aid")
      case None
      then have "update_artifact (decided s p approve c) aid \<lparr>u_status = Some ''REJECTED''\<rparr>
                   = (Inl JSONDecodeError, decided s p approve c)"
        using g by (simp add: update_artifact_missing)
      then show ?thesis
        unfolding ManualApprovalOperator_execute_def using assms u False None by simp
    next
      case (Some a)
      then have "update_artifact (decided s p approve c) aid \<lparr>u_status = Some ''REJECTED''\<rparr>
                   = (Inr (set_artifact \<lparr>u_status = Some ''REJECTED''\<rparr> a),
                      (decided s p approve c)\<lparr>artifacts :=
                         map (\<lambda>a. if a_id a = aid then set_artifact \<lparr>u_status = Some ''REJECTED''\<rparr> a else a)
                           (artifacts (decided s p approve c))\<rparr>)"
        using g by (simp add: update_artifact_found)
      then show ?thesis
        unfolding ManualApprovalOperator_execute_def using assms u False Some
        by (simp add: set_artifact_def decided_def)
    qed
  qed
qed

lemma find_map_keep:
  "(\<And>x. P (f x) = P x) \<Longrightarrow> find P (map f xs) = map_option f (find P xs)"
  by (induction xs) auto

lemma get_artifact_rejected:
  "get_artifact (s\<lparr>artifacts :=
       map (\<lambda>a. if a_id a = i then a\<lparr>a_status := v\<rparr> else a) (artifacts s)\<rparr>) j
   = map_option (\<lambda>a. if a_id a = i then a\<lparr>a_status := v\<rparr> else a) (get_artifact s j)"
  unfolding get_artifact_def by (simp add: find_map_keep)

lemma find_stage_stages:
  "pipelineStages s' = pipelineStages s \<Longrightarrow> find_stage s' t is = find_stage s t is"
  by (induction "is") (auto simp: get_pipeline_stage_by_order_def split: option.splits)

lemma quorum_true_iff:
  "fst (ApprovalOperator_execute s i) = Inr True \<longleftrightarrow>
   (\<exists>a st. get_artifact s i = Some a \<and> find_stage s (a_type a) range6 = Some st \<and>
       st_requiredApprovals st \<le> approved_count (get_approvals_for_artifact s i))"
  unfolding ApprovalOperator_execute_cases by (auto split: option.splits)

lemma count_map_mono:
  assumes "\<And>q. q \<in> set xs \<Longrightarrow> ap_artifactId (f q) = ap_artifactId q"
    and "\<And>q. q \<in> set xs \<Longrightarrow> ap_status q = ''APPROVED'' \<Longrightarrow> ap_status (f q) = ''APPROVED''"
  shows "length (filter (\<lambda>p. ap_artifactId p = i \<and> ap_status p = ''APPROVED'') xs)
       \<le> length (filter (\<lambda>p. ap_artifactId p = i \<and> ap_status p = ''APPROVED'') (map f xs))"
  using assms by (induction xs) auto

lemma decided_count_mono:
  assumes "approve \<or> (\<forall>q\<in>set (approvals s). ap_id q = ap_id p \<longrightarrow> ap_status q \<noteq> ''APPROVED'')"
  shows "approved_count (get_approvals_for_artifact s i)
       \<le> approved_count (get_approvals_for_artifact (decided s p approve c) i)"
proof -
  let ?f = "\<lambda>q. if ap_id q = ap_id p then set_approval (update_data approve c) q else q"
  have "length (filter (\<lambda>p. ap_artifactId p = i \<and> ap_status p = ''APPROVED'') (approvals s))
      \<le> length (filter (\<lambda>p. ap_artifactId p = i \<and> ap_status p = ''APPROVED'')
                 (map ?f (approvals s)))"
  proof (rule count_map_mono)
    fix q assume "q \<in> set (approvals s)"
    show "ap_artifactId (?f q) = ap_artifactId q"
      by (simp add: set_approval_keeps)
  next
    fix q assume "q \<in> set (approvals s)" and "ap_status q = ''APPROVED''"
    with assms show "ap_status (?f q) = ''APPROVED''"
      by (auto simp: set_approval_status decision_status_def)
  qed
  then show ?thesis
    unfolding approved_count_for decided_def by simp
qed

lemma quorum_kept:
  assumes q: "fst (ApprovalOperator_execute s i) = Inr True"
    and st: "pipelineStages s' = pipelineStages s"
    and ar: "\<And>a. get_artifact s i = Some a \<Longrightarrow> \<exists>a'. get_artifact s' i = Some a' \<and> a_type a' = a_type a"
    and cn: "approved_count (get_approvals_for_artifact s i)
              \<le> approved_count (get_approvals_for_artifact s' i)"
  shows "fst (ApprovalOperator_execute s' i) = Inr True"
proof -
  from q obtain a st where a: "get_artifact s i = Some a"
    and f: "find_stage s (a_type a) range6 = Some st"
    and r: "st_requiredApprovals st \<le> approved_count (get_approvals_for_artifact s i)"
    unfolding quorum_true_iff by blast
  from ar [OF a] obtain a' where a': "get_artifact s' i = Some a'" "a_type a' = a_type a"
    by blast
  have "find_stage s' (a_type a') range6 = Some st"
    using f a'(2) find_stage_stages [OF st] by simp
  moreover have "st_requiredApprovals st \<le> approved_count (get_approvals_for_artifact s' i)"
    using r cn by linarith
  ultimately show ?thesis unfolding quorum_true_iff using a'(1) by blast
qed

lemma decision_keeps_quorum:
  assumes q: "fst (ApprovalOperator_execute s i) = Inr True"
    and f: "filter (\<lambda>a. ap_stakeholderId a = sid) (get_approvals_for_artifact s aid) = p # rest"
    and h: "approve \<or> (\<forall>q\<in>set (approvals s). ap_id q = ap_id p \<longrightarrow> ap_status q \<noteq> ''APPROVED'')"
  shows "fst (ApprovalOperator_execute
                (snd (ManualApprovalOperator_execute s aid sid approve c)) i) = Inr True"
proof (rule quorum_kept [OF q])
  let ?s' = "snd (ManualApprovalOperator_execute s aid sid approve c)"
  show "pipelineStages ?s' = pipelineStages s"
    unfolding ManualApprovalOperator_execute_cases [OF f]
    by (simp add: decided_def split: option.splits)
  have ap: "approvals ?s' = approvals (decided s p approve c)"
    unfolding ManualApprovalOperator_execute_cases [OF f]
    by (simp add: split: option.splits)
  show "approved_count (get_approvals_for_artifact s i)
          \<le> approved_count (get_approvals_for_artifact ?s' i)"
    using decided_count_mono [OF h, of i c] ap
    by (simp add: get_approvals_for_artifact_def)
  fix a assume a: "get_artifact s i = Some a"
  have d: "get_artifact (decided s p approve c) i = Some a"
    using a by (simp add: get_artifact_def decided_def)
  show "\<exists>a'. get_artifact ?s' i = Some a' \<and> a_type a' = a_type a"
  proof (cases "approve \<or> get_artifact s aid = None")
    case True
    then have "?s' = decided s p approve c"
      unfolding ManualApprovalOperator_execute_cases [OF f] by auto
    then show ?thesis using d by simp
  next
    case False
    then obtain b where b: "get_artifact s aid = Some b" and na: "\<not> approve" by auto
    have "?s' = (decided s p approve c)\<lparr>artifacts :=
                    map (\<lambda>a. if a_id a = aid then a\<lparr>a_status := ''REJECTED''\<rparr> else a)
                      (artifacts (decided s p approve c))\<rparr>"
      unfolding ManualApprovalOperator_execute_cases [OF f] using b na
      by (simp add: decided_def)
    then show ?thesis using d by (simp add: get_artifact_rejected)
  qed
qed

lemmas manual_defs = ManualApprovalOperator_execute_def get_approvals_for_artifact_def
  update_approval_def update_artifact_def update_data_def decision_status_def
  set_approval_def set_artifact_def

lemma update_approval_first:
  assumes "p \<in> set (approvals s)"
  shows "\<exists>u. fst (update_approval s (ap_id p) (update_data approve c)) = Inr u \<and>
             ap_status u = decision_status approve"
proof -
  let ?f = "\<lambda>q. if ap_id q = ap_id p then set_approval (update_data approve c) q else q"
  have k: "\<And>x. (ap_id (?f x) = ap_id p) = (ap_id x = ap_id p)"
    by (simp add: set_approval_keeps)
  have "find (\<lambda>q. ap_id q = ap_id p) (approvals s) \<noteq> None"
    using assms by (auto simp: find_None_iff)
  then obtain q0 where q0: "find (\<lambda>q. ap_id q = ap_id p) (approvals s) = Some q0" by auto
  then have i: "ap_id q0 = ap_id p" by (auto simp: find_Some_iff)
  have "find (\<lambda>q. ap_id q = ap_id p) (map ?f (approvals s)) = Some (?f q0)"
    using find_map_keep [of "\<lambda>q. ap_id q = ap_id p" ?f, OF k] q0 by simp
  then show ?thesis
    unfolding update_approval_def using i
    by (simp add: Let_def set_approval_status)
qed

text \<open>
  C4, as the code has it. \<^verbatim>\<open>update_approval\<close> selects the row by its id alone, and
  \<^verbatim>\<open>ManualApprovalOperator.execute\<close> does not look at the status of the record it writes. A
  decision on a record therefore succeeds whatever the record's status is, and replaces the
  stored decision: after the operator has run, every row with the id of the stakeholder's
  first record carries the new decision, no row is added or removed, and the only error the
  operator can end with is the one of the artifact update on a rejection, when the artifact
  does not exist.
\<close>

theorem decision_overwrites_stored_decision:
  assumes "filter (\<lambda>a. ap_stakeholderId a = sid) (get_approvals_for_artifact s aid) = p # rest"
  shows "(\<exists>u. fst (update_approval s (ap_id p) (update_data approve c)) = Inr u \<and>
              ap_status u = decision_status approve)
       \<and> (\<forall>q\<in>set (approvals (snd (ManualApprovalOperator_execute s aid sid approve c))).
             ap_id q = ap_id p \<longrightarrow> ap_status q = decision_status approve)
       \<and> map ap_id (approvals (snd (ManualApprovalOperator_execute s aid sid approve c)))
           = map ap_id (approvals s)
       \<and> fst (ManualApprovalOperator_execute s aid sid approve c)
           = (if approve \<or> get_artifact s aid \<noteq> None then Inr () else Inl JSONDecodeError)"
proof -
  have in_s: "p \<in> set (approvals s)" using first_vote [OF assms] by simp
  have ap: "approvals (snd (ManualApprovalOperator_execute s aid sid approve c))
              = approvals (decided s p approve c)"
    unfolding ManualApprovalOperator_execute_cases [OF assms]
    by (simp split: option.splits)
  have 2: "\<forall>q\<in>set (approvals (decided s p approve c)).
             ap_id q = ap_id p \<longrightarrow> ap_status q = decision_status approve"
    unfolding decided_def by (auto simp: set_approval_keeps set_approval_status)
  have 3: "map ap_id (approvals (decided s p approve c)) = map ap_id (approvals s)"
    unfolding decided_def by (simp add: set_approval_keeps comp_def if_distrib cong: if_cong)
  have 4: "fst (ManualApprovalOperator_execute s aid sid approve c)
           = (if approve \<or> get_artifact s aid \<noteq> None then Inr () else Inl JSONDecodeError)"
    unfolding ManualApprovalOperator_execute_cases [OF assms]
    by (auto split: option.splits)
  show ?thesis
    using update_approval_first [OF in_s, of approve c] 2 3 4 unfolding ap by blast
qed

text \<open>
  The claim as stated fails: on \<open>store_approved\<close> the approval of stakeholder 1 is APPROVED,
  and a second decision, a rejection, returns without error and is what the store holds
  afterwards.
\<close>

theorem second_decision_counterexample:
  "map ap_status (approvals store_approved) = [''APPROVED'']
   \<and> ManualApprovalOperator_execute store_approved 1 1 False None =
       (Inr (),
        store_approved\<lparr>approvals := [vote 1 1 1 ''REJECTED''],
                        artifacts := [prd_artifact\<lparr>a_status := ''REJECTED''\<rparr>]\<rparr>)"
  by (simp add: manual_defs store_approved_def vote_def prd_artifact_def)

text \<open>
  On \<open>store_voted\<close> stakeholder 2 has rejected; an approval recorded afterwards succeeds and
  replaces the rejection.
\<close>

theorem decision_overwrites_stored_decision_witness:
  "filter (\<lambda>a. ap_stakeholderId a = 2) (get_approvals_for_artifact store_voted 3)
     = [vote 2 3 2 ''REJECTED'']
   \<and> map ap_status (approvals (snd (ManualApprovalOperator_execute store_voted 3 2 True None)))
     = [''APPROVED'', ''APPROVED'', ''APPROVED'']
   \<and> fst (ManualApprovalOperator_execute store_voted 3 2 True None) = Inr ()"
proof -
  have f: "filter (\<lambda>a. ap_stakeholderId a = 2) (get_approvals_for_artifact store_voted 3)
             = vote 2 3 2 ''REJECTED'' # []"
    by (simp add: get_approvals_for_artifact_def store_voted_def vote_def)
  have r: "fst (ManualApprovalOperator_execute store_voted 3 2 True None) = Inr ()"
    using decision_overwrites_stored_decision [OF f, of True None] by simp
  have "map ap_status (approvals (snd (ManualApprovalOperator_execute store_voted 3 2 True None)))
          = [''APPROVED'', ''APPROVED'', ''APPROVED'']"
    by (simp add: manual_defs store_voted_def vote_def)
  then show ?thesis using f r by simp
qed

text \<open>
  C2, as the code has it. A rejection recorded by \<^verbatim>\<open>ManualApprovalOperator.execute\<close> for a
  stakeholder who has an approval record on an existing artifact writes the decision on the
  rows with the id of that record, which leaves the record REJECTED, and sets the status of
  the artifact to REJECTED in the same run. An approval recorded the same way leaves the
  record APPROVED and the artifacts as they are.
\<close>

theorem rejection_vote_rejects_artifact:
  assumes "filter (\<lambda>a. ap_stakeholderId a = sid) (get_approvals_for_artifact s aid) = p # rest"
    and "get_artifact s aid = Some a"
  shows "fst (ManualApprovalOperator_execute s aid sid False c) = Inr ()
       \<and> approvals (snd (ManualApprovalOperator_execute s aid sid False c))
           = map (\<lambda>q. if ap_id q = ap_id p then set_approval (update_data False c) q else q)
               (approvals s)
       \<and> set_approval (update_data False c) p
           \<in> set (approvals (snd (ManualApprovalOperator_execute s aid sid False c)))
       \<and> ap_status (set_approval (update_data False c) p) = ''REJECTED''
       \<and> (\<forall>q\<in>set (approvals (snd (ManualApprovalOperator_execute s aid sid False c))).
             ap_id q = ap_id p \<longrightarrow> ap_status q = ''REJECTED'')
       \<and> get_artifact (snd (ManualApprovalOperator_execute s aid sid False c)) aid
           = Some (a\<lparr>a_status := ''REJECTED''\<rparr>)
       \<and> approvals (snd (ManualApprovalOperator_execute s aid sid True c))
           = map (\<lambda>q. if ap_id q = ap_id p then set_approval (update_data True c) q else q)
               (approvals s)
       \<and> ap_status (set_approval (update_data True c) p) = ''APPROVED''
       \<and> artifacts (snd (ManualApprovalOperator_execute s aid sid True c)) = artifacts s"
proof -
  have i: "a_id a = aid" using get_artifact_SomeD [OF assms(2)] by simp
  have in_s: "p \<in> set (approvals s)" using first_vote [OF assms(1)] by simp
  have d: "get_artifact (decided s p False c) aid = Some a"
    using assms(2) by (simp add: get_artifact_def decided_def)
  have e: "ManualApprovalOperator_execute s aid sid False c =
             (Inr (), (decided s p False c)\<lparr>artifacts :=
                map (\<lambda>a. if a_id a = aid then a\<lparr>a_status := ''REJECTED''\<rparr> else a)
                  (artifacts (decided s p False c))\<rparr>)"
    unfolding ManualApprovalOperator_execute_cases [OF assms(1)]
    using assms(2) by (simp add: decided_def)
  have ap: "approvals (snd (ManualApprovalOperator_execute s aid sid False c))
           = map (\<lambda>q. if ap_id q = ap_id p then set_approval (update_data False c) q else q)
               (approvals s)"
    unfolding e by (simp add: decided_def)
  have mem: "set_approval (update_data False c) p
           \<in> set (approvals (snd (ManualApprovalOperator_execute s aid sid False c)))"
    unfolding ap using in_s by force
  have st: "ap_status (set_approval (update_data False c) p) = ''REJECTED''"
    "ap_status (set_approval (update_data True c) p) = ''APPROVED''"
    by (simp_all add: set_approval_status decision_status_def)
  have all: "\<forall>q\<in>set (approvals (snd (ManualApprovalOperator_execute s aid sid False c))).
             ap_id q = ap_id p \<longrightarrow> ap_status q = ''REJECTED''"
    unfolding ap
    by (auto simp: set_approval_keeps set_approval_status decision_status_def)
  have ga: "get_artifact (snd (ManualApprovalOperator_execute s aid sid False c)) aid
          = Some (a\<lparr>a_status := ''REJECTED''\<rparr>)"
    unfolding e using d i by (simp add: get_artifact_rejected)
  have t: "ManualApprovalOperator_execute s aid sid True c = (Inr (), decided s p True c)"
    unfolding ManualApprovalOperator_execute_cases [OF assms(1)] by simp
  have apT: "approvals (snd (ManualApprovalOperator_execute s aid sid True c))
           = map (\<lambda>q. if ap_id q = ap_id p then set_approval (update_data True c) q else q)
               (approvals s)"
    unfolding t by (simp add: decided_def)
  have arT: "artifacts (snd (ManualApprovalOperator_execute s aid sid True c)) = artifacts s"
    unfolding t by (simp add: decided_def)
  have r: "fst (ManualApprovalOperator_execute s aid sid False c) = Inr ()"
    unfolding e by simp
  from r ap mem st(1) all ga apT st(2) arT show ?thesis
    by (intro conjI)
qed

text \<open>
  The claim as stated fails: on \<open>store_waiting\<close> the artifact is PENDING_APPROVAL, and the
  rejection of stakeholder 2 alone leaves it REJECTED.
\<close>

theorem rejection_vote_counterexample:
  "get_artifact store_waiting 3 = Some api_artifact
   \<and> a_status api_artifact = ''PENDING_APPROVAL''
   \<and> fst (ManualApprovalOperator_execute store_waiting 3 2 False None) = Inr ()
   \<and> map a_status (artifacts (snd (ManualApprovalOperator_execute store_waiting 3 2 False None)))
       = [''REJECTED'']"
  by (simp add: manual_defs store_waiting_def vote_def api_artifact_def get_artifact_def)

text \<open>
  On \<open>store_waiting\<close> stakeholder 2 has a pending record: the rejection leaves the record and
  the artifact REJECTED, an approval leaves the record APPROVED and the artifact as it was.
\<close>

theorem rejection_vote_rejects_artifact_witness:
  "filter (\<lambda>a. ap_stakeholderId a = 2) (get_approvals_for_artifact store_waiting 3)
     = [vote 2 3 2 ''PENDING'']
   \<and> get_artifact store_waiting 3 = Some api_artifact
   \<and> fst (ManualApprovalOperator_execute store_waiting 3 2 False None) = Inr ()
   \<and> approvals (snd (ManualApprovalOperator_execute store_waiting 3 2 False None))
       = [vote 1 3 1 ''APPROVED'', vote 2 3 2 ''REJECTED'']
   \<and> get_artifact (snd (ManualApprovalOperator_execute store_waiting 3 2 False None)) 3
       = Some (api_artifact\<lparr>a_status := ''REJECTED''\<rparr>)
   \<and> approvals (snd (ManualApprovalOperator_execute store_waiting 3 2 True None))
       = [vote 1 3 1 ''APPROVED'', vote 2 3 2 ''APPROVED'']
   \<and> artifacts (snd (ManualApprovalOperator_execute store_waiting 3 2 True None))
       = [api_artifact]"
proof -
  have f: "filter (\<lambda>a. ap_stakeholderId a = 2) (get_approvals_for_artifact store_waiting 3)
             = vote 2 3 2 ''PENDING'' # []"
    by (simp add: get_approvals_for_artifact_def store_waiting_def vote_def)
  have g: "get_artifact store_waiting 3 = Some api_artifact"
    by (simp add: example_defs)
  note th = rejection_vote_rejects_artifact [OF f g, of None]
  have r: "fst (ManualApprovalOperator_execute store_waiting 3 2 False None) = Inr ()"
    using th by (rule conjunct1)
  have apF: "approvals (snd (ManualApprovalOperator_execute store_waiting 3 2 False None))
       = map (\<lambda>q. if ap_id q = ap_id (vote 2 3 2 ''PENDING'')
                  then set_approval (update_data False None) q else q)
           (approvals store_waiting)"
    using th by blast
  have apF': "approvals (snd (ManualApprovalOperator_execute store_waiting 3 2 False None))
       = [vote 1 3 1 ''APPROVED'', vote 2 3 2 ''REJECTED'']"
    unfolding apF
    by (simp add: store_waiting_def vote_def set_approval_def update_data_def
        decision_status_def)
  have ga: "get_artifact (snd (ManualApprovalOperator_execute store_waiting 3 2 False None)) 3
       = Some (api_artifact\<lparr>a_status := ''REJECTED''\<rparr>)"
    using th by blast
  have apT: "approvals (snd (ManualApprovalOperator_execute store_waiting 3 2 True None))
       = map (\<lambda>q. if ap_id q = ap_id (vote 2 3 2 ''PENDING'')
                  then set_approval (update_data True None) q else q)
           (approvals store_waiting)"
    using th by blast
  have apT': "approvals (snd (ManualApprovalOperator_execute store_waiting 3 2 True None))
       = [vote 1 3 1 ''APPROVED'', vote 2 3 2 ''APPROVED'']"
    unfolding apT
    by (simp add: store_waiting_def vote_def set_approval_def update_data_def
        decision_status_def)
  have arT: "artifacts (snd (ManualApprovalOperator_execute store_waiting 3 2 True None))
       = [api_artifact]"
    using th by (simp add: store_waiting_def)
  from f g r apF' ga apT' arT show ?thesis
    by (intro conjI) simp_all
qed

text \<open>
  C8, as the code has it. A quorum that is reached stays reached when an approval is recorded,
  for any stakeholder and any artifact, and when a rejection is recorded on a record no row of
  whose id is APPROVED. (A rejection recorded on an APPROVED record replaces it and lowers the
  count.)
\<close>

theorem quorum_monotone_under_approvals:
  assumes "fst (ApprovalOperator_execute s i) = Inr True"
  shows "fst (ApprovalOperator_execute
                (snd (ManualApprovalOperator_execute s aid sid True c)) i) = Inr True
       \<and> (\<forall>p rest.
            filter (\<lambda>a. ap_stakeholderId a = sid) (get_approvals_for_artifact s aid) = p # rest
            \<and> (\<forall>q\<in>set (approvals s). ap_id q = ap_id p \<longrightarrow> ap_status q \<noteq> ''APPROVED'')
            \<longrightarrow> fst (ApprovalOperator_execute
                       (snd (ManualApprovalOperator_execute s aid sid False c)) i) = Inr True)"
proof -
  have "fst (ApprovalOperator_execute
               (snd (ManualApprovalOperator_execute s aid sid True c)) i) = Inr True"
  proof (cases "filter (\<lambda>a. ap_stakeholderId a = sid) (get_approvals_for_artifact s aid)")
    case Nil
    then have "ManualApprovalOperator_execute s aid sid True c = (Inr (), s)"
      unfolding ManualApprovalOperator_execute_def by simp
    then show ?thesis using assms by simp
  next
    case (Cons p rest)
    show ?thesis by (rule decision_keeps_quorum [OF assms Cons]) simp
  qed
  moreover have "\<forall>p rest.
            filter (\<lambda>a. ap_stakeholderId a = sid) (get_approvals_for_artifact s aid) = p # rest
            \<and> (\<forall>q\<in>set (approvals s). ap_id q = ap_id p \<longrightarrow> ap_status q \<noteq> ''APPROVED'')
            \<longrightarrow> fst (ApprovalOperator_execute
                       (snd (ManualApprovalOperator_execute s aid sid False c)) i) = Inr True"
    using decision_keeps_quorum [OF assms] by blast
  ultimately show ?thesis by blast
qed

text \<open>
  The claim as stated fails: on \<open>store_approved\<close> the quorum of the requirements document is
  reached; after stakeholder 1 has recorded a rejection over the approval, both quorum checks
  return False.
\<close>

theorem quorum_reverts_counterexample:
  "fst (ApprovalOperator_execute store_approved 1) = Inr True
   \<and> check_artifact_approvals store_approved 1 = Inr True
   \<and> fst (ApprovalOperator_execute
            (snd (ManualApprovalOperator_execute store_approved 1 1 False None)) 1) = Inr False
   \<and> check_artifact_approvals
        (snd (ManualApprovalOperator_execute store_approved 1 1 False None)) 1 = Inr False"
proof -
  have m: "snd (ManualApprovalOperator_execute store_approved 1 1 False None) =
        store_approved\<lparr>approvals := [vote 1 1 1 ''REJECTED''],
                        artifacts := [prd_artifact\<lparr>a_status := ''REJECTED''\<rparr>]\<rparr>"
    by (simp add: manual_defs store_approved_def vote_def prd_artifact_def)
  show ?thesis
    unfolding m ApprovalOperator_execute_cases check_artifact_approvals_def
    by (simp add: example_defs store_approved_def prd_artifact_def approved_count_def
        get_approvals_for_artifact_def)
qed

text \<open>
  On \<open>store_voted\<close> the quorum is reached; it stays reached when stakeholder 2, whose record is
  REJECTED, records an approval, and when the same stakeholder records a rejection again.
\<close>

theorem quorum_monotone_under_approvals_witness:
  "fst (ApprovalOperator_execute store_voted 3) = Inr True
   \<and> fst (ApprovalOperator_execute
            (snd (ManualApprovalOperator_execute store_voted 3 2 True None)) 3) = Inr True
   \<and> fst (ApprovalOperator_execute
            (snd (ManualApprovalOperator_execute store_voted 3 2 False None)) 3) = Inr True"
proof -
  have q: "fst (ApprovalOperator_execute store_voted 3) = Inr True"
    unfolding ApprovalOperator_execute_cases approved_count_for
    by (simp add: example_defs)
  have f: "filter (\<lambda>a. ap_stakeholderId a = 2) (get_approvals_for_artifact store_voted 3)
             = vote 2 3 2 ''REJECTED'' # []"
    by (simp add: get_approvals_for_artifact_def store_voted_def vote_def)
  have n: "\<forall>q\<in>set (approvals store_voted).
             ap_id q = ap_id (vote 2 3 2 ''REJECTED'') \<longrightarrow> ap_status q \<noteq> ''APPROVED''"
    by (simp add: store_voted_def vote_def)
  show ?thesis
    using q f n quorum_monotone_under_approvals [OF q, of 3 2 None] by blast
qed

section \<open>Stage lookup\<close>

lemma find_stage_none:
  "\<forall>st\<in>set (pipelineStages s). st_artifactType st \<noteq> t \<Longrightarrow> find_stage s t is = None"
proof (induction "is")
  case Nil
  then show ?case by simp
next
  case (Cons i rest)
  show ?case
  proof (cases "get_pipeline_stage_by_order s i")
    case None
    then show ?thesis using Cons by simp
  next
    case (Some ps)
    then have "ps \<in> set (pipelineStages s)"
      unfolding get_pipeline_stage_by_order_def by (auto simp: find_Some_iff)
    then have "st_artifactType ps \<noteq> t" using Cons.prems by blast
    then show ?thesis using Some Cons by simp
  qed
qed

text \<open>
  C7, as the code has it. For an artifact whose type has no stage in the table,
  \<^verbatim>\<open>ApprovalOperator.execute\<close> raises the error of the missing stage and writes nothing, while
  \<^verbatim>\<open>check_artifact_approvals\<close> returns True: it takes the approvals as complete.
\<close>

theorem missing_stage_raises_in_operator:
  assumes "get_artifact s artifact_id = Some a"
    and "\<forall>st\<in>set (pipelineStages s). st_artifactType st \<noteq> a_type a"
  shows "ApprovalOperator_execute s artifact_id = (Inl (NoPipelineStage (a_type a)), s)
       \<and> check_artifact_approvals s artifact_id = Inr True"
proof -
  have n: "find_stage s (a_type a) range6 = None"
    using find_stage_none [OF assms(2)] .
  have "ApprovalOperator_execute s artifact_id = (Inl (NoPipelineStage (a_type a)), s)"
    unfolding ApprovalOperator_execute_cases using assms(1) n by simp
  moreover have "check_artifact_approvals s artifact_id = Inr True"
    unfolding check_artifact_approvals_def using assms(1) n
    by (simp add: find_stage_for_Some)
  ultimately show ?thesis by simp
qed

text \<open>
  The claim as stated fails: on \<open>store_unstaged\<close> no stage has the type of the requirements
  document, its only approval is pending, and \<^verbatim>\<open>check_artifact_approvals\<close> returns True.
\<close>

theorem missing_stage_counterexample:
  "get_artifact store_unstaged 1 = Some prd_artifact
   \<and> filter (\<lambda>st. st_artifactType st = a_type prd_artifact) (pipelineStages store_unstaged) = []
   \<and> map ap_status (get_approvals_for_artifact store_unstaged 1) = [''PENDING'']
   \<and> check_artifact_approvals store_unstaged 1 = Inr True"
  by (simp add: check_artifact_approvals_def get_artifact_def get_approvals_for_artifact_def
      get_pipeline_stage_by_order_def range6_def store_unstaged_def prd_artifact_def vote_def)

text \<open>On \<open>store_unstaged\<close> the operator raises and the helper returns True.\<close>

theorem missing_stage_raises_in_operator_witness:
  "get_artifact store_unstaged 1 = Some prd_artifact
   \<and> ApprovalOperator_execute store_unstaged 1 = (Inl (NoPipelineStage ''PRD''), store_unstaged)
   \<and> check_artifact_approvals store_unstaged 1 = Inr True"
proof -
  have a: "get_artifact store_unstaged 1 = Some prd_artifact"
    by (simp add: get_artifact_def store_unstaged_def prd_artifact_def)
  have b: "\<forall>st\<in>set (pipelineStages store_unstaged). st_artifactType st \<noteq> a_type prd_artifact"
    by (simp add: store_unstaged_def prd_artifact_def)
  show ?thesis
    using a missing_stage_raises_in_operator [OF a b] by (simp add: prd_artifact_def)
qed

section \<open>The join\<close>

lemma finalize_task_not_run:
  assumes "read_id check_zod_approvals_artifact_id = None"
  shows "finalize_task read_id xcom_pull s = (None, snd (ApprovalOperator_task read_id s
           (PyStr check_db_approvals_artifact_id)))"
  unfolding finalize_task_def
  using assms
  by (simp add: ApprovalOperator_task_def id_of_def state_of_def ALL_SUCCESS_def
      split: prod.splits)

lemma decimal_of_templates:
  "decimal check_zod_approvals_artifact_id = None"
  "decimal check_db_approvals_artifact_id = None"
  by (simp_all add: decimal_def digit_value_def check_zod_approvals_artifact_id_def
      check_db_approvals_artifact_id_def)

text \<open>
  C3. The claim is that the finalize action fires, once, when both schema artifacts are
  APPROVED. On \<open>store_joined\<close> both are, and a quorum check on either id returns True. The two
  check tasks of the DAG do not get these ids: each gets the text of its template, from which
  the database reads no id, so both checks raise, the trigger rule of \<^verbatim>\<open>finalize_task\<close> is not
  met and \<^verbatim>\<open>finalize_pipeline\<close> is not run, whatever \<^verbatim>\<open>xcom_pull\<close> returns.
\<close>

theorem finalize_not_run_when_both_approved:
  "map a_status (artifacts store_joined) = [''APPROVED'', ''APPROVED'']
   \<and> fst (ApprovalOperator_execute store_joined 5) = Inr True
   \<and> fst (ApprovalOperator_execute store_joined 6) = Inr True
   \<and> ApprovalOperator_task decimal store_joined (PyStr check_zod_approvals_artifact_id)
       = (Inl NodeScriptFailed, store_joined)
   \<and> ApprovalOperator_task decimal store_joined (PyStr check_db_approvals_artifact_id)
       = (Inl NodeScriptFailed, store_joined)
   \<and> finalize_task decimal xcom_pull store_joined = (None, store_joined)"
proof -
  have z: "fst (ApprovalOperator_execute store_joined 5) = Inr True"
    unfolding ApprovalOperator_execute_cases approved_count_for
    by (simp add: example_defs store_joined_def zod_artifact_def db_artifact_def)
  have d: "fst (ApprovalOperator_execute store_joined 6) = Inr True"
    unfolding ApprovalOperator_execute_cases approved_count_for
    by (simp add: example_defs store_joined_def zod_artifact_def db_artifact_def)
  have tz: "ApprovalOperator_task decimal store_joined (PyStr check_zod_approvals_artifact_id)
       = (Inl NodeScriptFailed, store_joined)"
    by (simp add: ApprovalOperator_task_def id_of_def decimal_of_templates)
  have td: "ApprovalOperator_task decimal store_joined (PyStr check_db_approvals_artifact_id)
       = (Inl NodeScriptFailed, store_joined)"
    by (simp add: ApprovalOperator_task_def id_of_def decimal_of_templates)
  have f: "finalize_task decimal xcom_pull store_joined = (None, store_joined)"
    unfolding finalize_task_not_run [where read_id = decimal, OF decimal_of_templates(1)] td
    by simp
  have st: "map a_status (artifacts store_joined) = [''APPROVED'', ''APPROVED'']"
    by (simp add: store_joined_def zod_artifact_def db_artifact_def)
  from st z d tz td f show ?thesis by (intro conjI)
qed

section \<open>Generators\<close>

lemma find_append_Some:
  "find P xs = Some x \<Longrightarrow> find P (xs @ ys) = Some x"
  by (induction xs) auto

lemma PRDProcessorOperator_execute_run:
  assumes "get_artifact s pid = Some a" and "a_type a = ''PRD''"
    and "execute_processor ''prd_processor'' (JObj [(''prd'', a_content a)]) = Inr r"
  shows "PRDProcessorOperator_execute execute_processor task_id s pid =
     (Inr (next_artifact_id s),
      s\<lparr>artifacts := artifacts s @
           [\<lparr>a_id = next_artifact_id s, a_name = ''DDD Model for '' @ a_name a,
             a_type = ''DDD_MODEL'', a_content = r, a_createdBy = task_id,
             a_parentId = Some pid, a_status = ''PENDING_APPROVAL''\<rparr>],
         approvals := approvals s @
           [\<lparr>ap_id = next_approval_id s, ap_artifactId = next_artifact_id s,
             ap_stakeholderId = 1, ap_status = ''PENDING'', ap_comment = None\<rparr>],
         next_artifact_id := next_artifact_id s + 1,
         next_approval_id := next_approval_id s + 1\<rparr>)"
proof -
  have i: "a_id a = pid" using get_artifact_SomeD [OF assms(1)] by simp
  show ?thesis
    unfolding PRDProcessorOperator_execute_def
    using assms i by (simp add: create_artifact_def create_approval_def Let_def)
qed

lemma seed_schema_approvals_run:
  "seed_schema_approvals s z d =
     s\<lparr>approvals := approvals s @
          [\<lparr>ap_id = next_approval_id s, ap_artifactId = z,
            ap_stakeholderId = 2, ap_status = ''PENDING'', ap_comment = None\<rparr>,
           \<lparr>ap_id = next_approval_id s + 1, ap_artifactId = z,
            ap_stakeholderId = 4, ap_status = ''PENDING'', ap_comment = None\<rparr>,
           \<lparr>ap_id = next_approval_id s + 2, ap_artifactId = d,
            ap_stakeholderId = 3, ap_status = ''PENDING'', ap_comment = None\<rparr>,
           \<lparr>ap_id = next_approval_id s + 3, ap_artifactId = d,
            ap_stakeholderId = 5, ap_status = ''PENDING'', ap_comment = None\<rparr>],
        next_approval_id := next_approval_id s + 4\<rparr>"
  unfolding seed_schema_approvals_def
  by (simp add: create_approval_def Let_def)

lemma SchemaGeneratorOperator_execute_run:
  assumes "get_artifact s aid = Some a" and "a_type a = ''TYPESPEC''"
    and "execute_processor ''schema_generator'' (JObj [(''typespec'', a_content a)]) = Inr result"
    and "subscript result ''zod_schema'' = Inr z"
    and "subscript result ''db_schema'' = Inr d"
  shows "SchemaGeneratorOperator_execute execute_processor task_id s aid =
     (Inr (next_artifact_id s, next_artifact_id s + 1),
      s\<lparr>artifacts := artifacts s @
           [\<lparr>a_id = next_artifact_id s, a_name = ''Zod Schema for '' @ a_name a,
             a_type = ''ZOD_SCHEMA'', a_content = z, a_createdBy = task_id,
             a_parentId = Some aid, a_status = ''PENDING_APPROVAL''\<rparr>,
            \<lparr>a_id = next_artifact_id s + 1, a_name = ''Database Schema for '' @ a_name a,
             a_type = ''DB_SCHEMA'', a_content = d, a_createdBy = task_id,
             a_parentId = Some aid, a_status = ''PENDING_APPROVAL''\<rparr>],
         approvals := approvals s @
           [\<lparr>ap_id = next_approval_id s, ap_artifactId = next_artifact_id s,
             ap_stakeholderId = 2, ap_status = ''PENDING'', ap_comment = None\<rparr>,
            \<lparr>ap_id = next_approval_id s + 1, ap_artifactId = next_artifact_id s,
             ap_stakeholderId = 4, ap_status = ''PENDING'', ap_comment = None\<rparr>,
            \<lparr>ap_id = next_approval_id s + 2, ap_artifactId = next_artifact_id s + 1,
             ap_stakeholderId = 3, ap_status = ''PENDING'', ap_comment = None\<rparr>,
            \<lparr>ap_id = next_approval_id s + 3, ap_artifactId = next_artifact_id s + 1,
             ap_stakeholderId = 5, ap_status = ''PENDING'', ap_comment = None\<rparr>],
         next_artifact_id := next_artifact_id s + 2,
         next_approval_id := next_approval_id s + 4\<rparr>)"
proof -
  have i: "a_id a = aid" using get_artifact_SomeD [OF assms(1)] by simp
  show ?thesis
    unfolding SchemaGeneratorOperator_execute_def seed_schema_approvals_run
    using assms i by (simp add: create_artifact_def Let_def)
qed

lemma get_artifact_after_append:
  "get_artifact s i = Some a \<Longrightarrow>
   get_artifact (s\<lparr>artifacts := artifacts s @ new, approvals := ps,
                  next_artifact_id := n, next_approval_id := m\<rparr>) i = Some a"
  unfolding get_artifact_def by (simp add: find_append_Some)

text \<open>
  C9. On a TypeSpec artifact, with a processor result that has both payloads, one run of
  \<^verbatim>\<open>SchemaGeneratorOperator.execute\<close> returns the ids of two new artifacts and adds exactly these
  two to the store: a ZOD_SCHEMA and a DB_SCHEMA artifact, both PENDING_APPROVAL, both with the
  TypeSpec artifact's id as \<^verbatim>\<open>parentId\<close>. It adds four PENDING approvals, two for each of them;
  when no earlier approval refers to an id not yet assigned, the approvals of the first sibling
  are those of stakeholders 2 and 4 and the approvals of the second those of stakeholders 3
  and 5.
\<close>

theorem branch_creates_two_siblings:
  assumes "get_artifact s aid = Some a" and "a_type a = ''TYPESPEC''"
    and "execute_processor ''schema_generator'' (JObj [(''typespec'', a_content a)]) = Inr result"
    and "subscript result ''zod_schema'' = Inr z"
    and "subscript result ''db_schema'' = Inr d"
    and "SchemaGeneratorOperator_execute execute_processor task_id s aid = (r, s')"
  shows "r = Inr (next_artifact_id s, next_artifact_id s + 1)
       \<and> artifacts s' = artifacts s @
           [\<lparr>a_id = next_artifact_id s, a_name = ''Zod Schema for '' @ a_name a,
             a_type = ''ZOD_SCHEMA'', a_content = z, a_createdBy = task_id,
             a_parentId = Some aid, a_status = ''PENDING_APPROVAL''\<rparr>,
            \<lparr>a_id = next_artifact_id s + 1, a_name = ''Database Schema for '' @ a_name a,
             a_type = ''DB_SCHEMA'', a_content = d, a_createdBy = task_id,
             a_parentId = Some aid, a_status = ''PENDING_APPROVAL''\<rparr>]
       \<and> approvals s' = approvals s @
           [\<lparr>ap_id = next_approval_id s, ap_artifactId = next_artifact_id s,
             ap_stakeholderId = 2, ap_status = ''PENDING'', ap_comment = None\<rparr>,
            \<lparr>ap_id = next_approval_id s + 1, ap_artifactId = next_artifact_id s,
             ap_stakeholderId = 4, ap_status = ''PENDING'', ap_comment = None\<rparr>,
            \<lparr>ap_id = next_approval_id s + 2, ap_artifactId = next_artifact_id s + 1,
             ap_stakeholderId = 3, ap_status = ''PENDING'', ap_comment = None\<rparr>,
            \<lparr>ap_id = next_approval_id s + 3, ap_artifactId = next_artifact_id s + 1,
             ap_stakeholderId = 5, ap_status = ''PENDING'', ap_comment = None\<rparr>]
       \<and> (approvals_allocated s \<longrightarrow>
            map ap_stakeholderId (get_approvals_for_artifact s' (next_artifact_id s)) = [2, 4]
            \<and> map ap_stakeholderId (get_approvals_for_artifact s' (next_artifact_id s + 1))
                = [3, 5])"
proof -
  note run = SchemaGeneratorOperator_execute_run
    [where execute_processor = execute_processor and task_id = task_id, OF assms(1-5)]
  have r: "r = Inr (next_artifact_id s, next_artifact_id s + 1)"
    using assms(6) unfolding run by simp
  have s': "s' = snd (SchemaGeneratorOperator_execute execute_processor task_id s aid)"
    using assms(6) by simp
  have ar: "artifacts s' = artifacts s @
           [\<lparr>a_id = next_artifact_id s, a_name = ''Zod Schema for '' @ a_name a,
             a_type = ''ZOD_SCHEMA'', a_content = z, a_createdBy = task_id,
             a_parentId = Some aid, a_status = ''PENDING_APPROVAL''\<rparr>,
            \<lparr>a_id = next_artifact_id s + 1, a_name = ''Database Schema for '' @ a_name a,
             a_type = ''DB_SCHEMA'', a_content = d, a_createdBy = task_id,
             a_parentId = Some aid, a_status = ''PENDING_APPROVAL''\<rparr>]"
    unfolding s' run by simp
  have ap: "approvals s' = approvals s @
           [\<lparr>ap_id = next_approval_id s, ap_artifactId = next_artifact_id s,
             ap_stakeholderId = 2, ap_status = ''PENDING'', ap_comment = None\<rparr>,
            \<lparr>ap_id = next_approval_id s + 1, ap_artifactId = next_artifact_id s,
             ap_stakeholderId = 4, ap_status = ''PENDING'', ap_comment = None\<rparr>,
            \<lparr>ap_id = next_approval_id s + 2, ap_artifactId = next_artifact_id s + 1,
             ap_stakeholderId = 3, ap_status = ''PENDING'', ap_comment = None\<rparr>,
            \<lparr>ap_id = next_approval_id s + 3, ap_artifactId = next_artifact_id s + 1,
             ap_stakeholderId = 5, ap_status = ''PENDING'', ap_comment = None\<rparr>]"
    unfolding s' run by simp
  have own: "map ap_stakeholderId (get_approvals_for_artifact s' (next_artifact_id s)) = [2, 4]
           \<and> map ap_stakeholderId (get_approvals_for_artifact s' (next_artifact_id s + 1)) = [3, 5]"
    if al: "approvals_allocated s"
  proof -
    have old: "filter (\<lambda>p. ap_artifactId p = next_artifact_id s) (approvals s) = []"
      "filter (\<lambda>p. ap_artifactId p = next_artifact_id s + 1) (approvals s) = []"
      using al unfolding approvals_allocated_def list_all_iff
      by (auto simp: filter_empty_conv)
    show ?thesis
      unfolding get_approvals_for_artifact_def ap using old by simp
  qed
  show ?thesis using r ar ap own by blast
qed

text \<open>
  On \<open>store_typespec\<close> the run returns the ids 5 and 6; both new artifacts have the parent 4,
  and each has its own two pending approvals.
\<close>

theorem branch_creates_two_siblings_witness:
  "fst (SchemaGeneratorOperator_execute example_processor ''generate_schemas'' store_typespec 4)
     = Inr (5, 6)
   \<and> map a_parentId (drop 1 (artifacts (snd (SchemaGeneratorOperator_execute example_processor
         ''generate_schemas'' store_typespec 4)))) = [Some 4, Some 4]
   \<and> map ap_stakeholderId (get_approvals_for_artifact (snd (SchemaGeneratorOperator_execute
         example_processor ''generate_schemas'' store_typespec 4)) 5) = [2, 4]
   \<and> map ap_stakeholderId (get_approvals_for_artifact (snd (SchemaGeneratorOperator_execute
         example_processor ''generate_schemas'' store_typespec 4)) 6) = [3, 5]"
proof -
  have a: "get_artifact store_typespec 4 = Some typespec_artifact"
    by (simp add: get_artifact_def store_typespec_def typespec_artifact_def)
  have b: "a_type typespec_artifact = ''TYPESPEC''"
    by (simp add: typespec_artifact_def)
  have c: "example_processor ''schema_generator''
             (JObj [(''typespec'', a_content typespec_artifact)])
           = Inr (JObj [(''zod_schema'', JStr ''z''), (''db_schema'', JStr ''d'')])"
    by (simp add: example_processor_def)
  have z: "subscript (JObj [(''zod_schema'', JStr ''z''), (''db_schema'', JStr ''d'')])
             ''zod_schema'' = Inr (JStr ''z'')"
    by (simp add: subscript_def)
  have d: "subscript (JObj [(''zod_schema'', JStr ''z''), (''db_schema'', JStr ''d'')])
             ''db_schema'' = Inr (JStr ''d'')"
    by (simp add: subscript_def)
  have al: "approvals_allocated store_typespec"
    by (simp add: approvals_allocated_def store_typespec_def vote_def)
  obtain r s' where run: "SchemaGeneratorOperator_execute example_processor
      ''generate_schemas'' store_typespec 4 = (r, s')"
    by (cases "SchemaGeneratorOperator_execute example_processor
      ''generate_schemas'' store_typespec 4")
  show ?thesis
    using branch_creates_two_siblings
      [where execute_processor = example_processor, OF a b c z d run] al
    unfolding run by (simp add: store_typespec_def)
qed

text \<open>
  C6, as the code has it. The generators do not look for an existing child before they create
  one. Every successful run adds a child: two runs of \<^verbatim>\<open>PRDProcessorOperator.execute\<close> on the
  same requirements document add two DDD_MODEL artifacts with that parent, and two runs of
  \<^verbatim>\<open>SchemaGeneratorOperator.execute\<close> on the same TypeSpec artifact add two ZOD_SCHEMA and two
  DB_SCHEMA artifacts with that parent.
\<close>

theorem dispatch_twice_two_children:
  "(get_artifact s pid = Some a \<and> a_type a = ''PRD'' \<and>
    execute_processor ''prd_processor'' (JObj [(''prd'', a_content a)]) = Inr r
    \<longrightarrow> fst (PRDProcessorOperator_execute execute_processor task_id s pid)
          = Inr (next_artifact_id s)
        \<and> fst (PRDProcessorOperator_execute execute_processor task_id
                 (snd (PRDProcessorOperator_execute execute_processor task_id s pid)) pid)
          = Inr (next_artifact_id s + 1)
        \<and> length (children (snd (PRDProcessorOperator_execute execute_processor task_id
                 (snd (PRDProcessorOperator_execute execute_processor task_id s pid)) pid))
                 pid ''DDD_MODEL'')
          = length (children s pid ''DDD_MODEL'') + 2)
   \<and> (get_artifact s pid = Some a \<and> a_type a = ''TYPESPEC'' \<and>
      execute_processor ''schema_generator'' (JObj [(''typespec'', a_content a)]) = Inr result \<and>
      subscript result ''zod_schema'' = Inr z \<and> subscript result ''db_schema'' = Inr d
    \<longrightarrow> length (children (snd (SchemaGeneratorOperator_execute execute_processor task_id
                 (snd (SchemaGeneratorOperator_execute execute_processor task_id s pid)) pid))
                 pid ''ZOD_SCHEMA'')
          = length (children s pid ''ZOD_SCHEMA'') + 2
        \<and> length (children (snd (SchemaGeneratorOperator_execute execute_processor task_id
                 (snd (SchemaGeneratorOperator_execute execute_processor task_id s pid)) pid))
                 pid ''DB_SCHEMA'')
          = length (children s pid ''DB_SCHEMA'') + 2)"
proof (intro conjI impI)
  assume h: "get_artifact s pid = Some a \<and> a_type a = ''PRD'' \<and>
    execute_processor ''prd_processor'' (JObj [(''prd'', a_content a)]) = Inr r"
  note run1 = PRDProcessorOperator_execute_run
    [where execute_processor = execute_processor and task_id = task_id and s = s and pid = pid
       and a = a and r = r]
  let ?s1 = "snd (PRDProcessorOperator_execute execute_processor task_id s pid)"
  have g1: "get_artifact ?s1 pid = Some a"
    using h by (simp add: run1 get_artifact_after_append)
  note run2 = PRDProcessorOperator_execute_run
    [where execute_processor = execute_processor and task_id = task_id and s = ?s1
       and pid = pid and a = a and r = r, OF g1]
  show "fst (PRDProcessorOperator_execute execute_processor task_id s pid)
          = Inr (next_artifact_id s)"
    using h by (simp add: run1)
  show "fst (PRDProcessorOperator_execute execute_processor task_id ?s1 pid)
          = Inr (next_artifact_id s + 1)"
    using h by (simp add: run2) (simp add: run1)
  show "length (children (snd (PRDProcessorOperator_execute execute_processor task_id ?s1 pid))
                 pid ''DDD_MODEL'')
          = length (children s pid ''DDD_MODEL'') + 2"
    using h by (simp add: run2 children_def) (simp add: run1)
next
  assume h: "get_artifact s pid = Some a \<and> a_type a = ''TYPESPEC'' \<and>
      execute_processor ''schema_generator'' (JObj [(''typespec'', a_content a)]) = Inr result \<and>
      subscript result ''zod_schema'' = Inr z \<and> subscript result ''db_schema'' = Inr d"
  note run1 = SchemaGeneratorOperator_execute_run
    [where execute_processor = execute_processor and task_id = task_id and s = s and aid = pid
       and a = a and result = result and z = z and d = d]
  let ?s1 = "snd (SchemaGeneratorOperator_execute execute_processor task_id s pid)"
  have g1: "get_artifact ?s1 pid = Some a"
    using h by (simp add: run1 get_artifact_after_append)
  note run2 = SchemaGeneratorOperator_execute_run
    [where execute_processor = execute_processor and task_id = task_id and s = ?s1
       and aid = pid and a = a and result = result and z = z and d = d, OF g1]
  show "length (children (snd (SchemaGeneratorOperator_execute execute_processor task_id ?s1 pid))
                 pid ''ZOD_SCHEMA'')
          = length (children s pid ''ZOD_SCHEMA'') + 2"
    using h by (simp add: run2 children_def) (simp add: run1)
  show "length (children (snd (SchemaGeneratorOperator_execute execute_processor task_id ?s1 pid))
                 pid ''DB_SCHEMA'')
          = length (children s pid ''DB_SCHEMA'') + 2"
    using h by (simp add: run2 children_def) (simp add: run1)
qed

lemma prd_twice_on_seeded:
  "snd (PRDProcessorOperator_execute example_processor ''process_prd''
          (snd (PRDProcessorOperator_execute example_processor ''process_prd'' store_seeded 1)) 1)
   = store_seeded
       \<lparr>artifacts := [prd_artifact,
          \<lparr>a_id = 2, a_name = ''DDD Model for Checkout Flow'', a_type = ''DDD_MODEL'',
           a_content = JObj [(''entities'', JArr [])], a_createdBy = ''process_prd'',
           a_parentId = Some 1, a_status = ''PENDING_APPROVAL''\<rparr>,
          \<lparr>a_id = 3, a_name = ''DDD Model for Checkout Flow'', a_type = ''DDD_MODEL'',
           a_content = JObj [(''entities'', JArr [])], a_createdBy = ''process_prd'',
           a_parentId = Some 1, a_status = ''PENDING_APPROVAL''\<rparr>],
        approvals := [vote 1 1 1 ''PENDING'', vote 2 2 1 ''PENDING'', vote 3 3 1 ''PENDING''],
        next_artifact_id := 4, next_approval_id := 4\<rparr>"
proof -
  have a: "get_artifact store_seeded 1 = Some prd_artifact"
    by (simp add: get_artifact_def store_seeded_def prd_artifact_def)
  have b: "a_type prd_artifact = ''PRD''" by (simp add: prd_artifact_def)
  have c: "example_processor ''prd_processor'' (JObj [(''prd'', a_content prd_artifact)])
             = Inr (JObj [(''entities'', JArr [])])"
    by (simp add: example_processor_def)
  note run1 = PRDProcessorOperator_execute_run
    [where execute_processor = example_processor and task_id = "''process_prd''", OF a b c]
  have g: "get_artifact (snd (PRDProcessorOperator_execute example_processor ''process_prd''
             store_seeded 1)) 1 = Some prd_artifact"
    unfolding run1 using a by (simp add: get_artifact_after_append)
  note run2 = PRDProcessorOperator_execute_run
    [where execute_processor = example_processor and task_id = "''process_prd''", OF g b c]
  show ?thesis
    unfolding run2 unfolding run1
    by (simp add: store_seeded_def vote_def prd_artifact_def)
qed

text \<open>
  The claim as stated fails: on \<open>store_seeded\<close> the requirements document has no child, and
  after two runs of the processor it has the two children 2 and 3 of type DDD_MODEL.
\<close>

theorem dispatch_twice_counterexample:
  "children store_seeded 1 ''DDD_MODEL'' = []
   \<and> map a_id (children
        (snd (PRDProcessorOperator_execute example_processor ''process_prd''
           (snd (PRDProcessorOperator_execute example_processor ''process_prd'' store_seeded 1))
           1)) 1 ''DDD_MODEL'') = [2, 3]"
  unfolding prd_twice_on_seeded
  by (simp add: children_def store_seeded_def prd_artifact_def)

text \<open>
  Both generators run twice on the example stores: the requirements document gets two domain
  models, the TypeSpec artifact two schemas of each kind.
\<close>

theorem dispatch_twice_two_children_witness:
  "get_artifact store_seeded 1 = Some prd_artifact
   \<and> fst (PRDProcessorOperator_execute example_processor ''process_prd'' store_seeded 1) = Inr 2
   \<and> fst (PRDProcessorOperator_execute example_processor ''process_prd''
           (snd (PRDProcessorOperator_execute example_processor ''process_prd'' store_seeded 1))
           1) = Inr 3
   \<and> length (children
        (snd (PRDProcessorOperator_execute example_processor ''process_prd''
           (snd (PRDProcessorOperator_execute example_processor ''process_prd'' store_seeded 1))
           1)) 1 ''DDD_MODEL'') = 2
   \<and> get_artifact store_typespec 4 = Some typespec_artifact
   \<and> length (children
        (snd (SchemaGeneratorOperator_execute example_processor ''generate_schemas''
           (snd (SchemaGeneratorOperator_execute example_processor ''generate_schemas''
              store_typespec 4)) 4)) 4 ''ZOD_SCHEMA'') = 2
   \<and> length (children
        (snd (SchemaGeneratorOperator_execute example_processor ''generate_schemas''
           (snd (SchemaGeneratorOperator_execute example_processor ''generate_schemas''
              store_typespec 4)) 4)) 4 ''DB_SCHEMA'') = 2"
proof -
  have a: "get_artifact store_seeded 1 = Some prd_artifact"
    by (simp add: get_artifact_def store_seeded_def prd_artifact_def)
  have b: "a_type prd_artifact = ''PRD''" by (simp add: prd_artifact_def)
  have c: "example_processor ''prd_processor'' (JObj [(''prd'', a_content prd_artifact)])
             = Inr (JObj [(''entities'', JArr [])])"
    by (simp add: example_processor_def)
  have n: "next_artifact_id store_seeded = 2" "children store_seeded 1 ''DDD_MODEL'' = []"
    by (simp_all add: store_seeded_def children_def prd_artifact_def)
  have a': "get_artifact store_typespec 4 = Some typespec_artifact"
    by (simp add: get_artifact_def store_typespec_def typespec_artifact_def)
  have b': "a_type typespec_artifact = ''TYPESPEC''"
    by (simp add: typespec_artifact_def)
  have c': "example_processor ''schema_generator''
             (JObj [(''typespec'', a_content typespec_artifact)])
           = Inr (JObj [(''zod_schema'', JStr ''z''), (''db_schema'', JStr ''d'')])"
    by (simp add: example_processor_def)
  have z: "subscript (JObj [(''zod_schema'', JStr ''z''), (''db_schema'', JStr ''d'')])
             ''zod_schema'' = Inr (JStr ''z'')"
    by (simp add: subscript_def)
  have d: "subscript (JObj [(''zod_schema'', JStr ''z''), (''db_schema'', JStr ''d'')])
             ''db_schema'' = Inr (JStr ''d'')"
    by (simp add: subscript_def)
  have n': "children store_typespec 4 ''ZOD_SCHEMA'' = []"
    "children store_typespec 4 ''DB_SCHEMA'' = []"
    by (simp_all add: store_typespec_def children_def typespec_artifact_def)
  have prd: "fst (PRDProcessorOperator_execute example_processor ''process_prd'' store_seeded 1)
        = Inr 2
   \<and> fst (PRDProcessorOperator_execute example_processor ''process_prd''
           (snd (PRDProcessorOperator_execute example_processor ''process_prd'' store_seeded 1))
           1) = Inr 3
   \<and> length (children
        (snd (PRDProcessorOperator_execute example_processor ''process_prd''
           (snd (PRDProcessorOperator_execute example_processor ''process_prd'' store_seeded 1))
           1)) 1 ''DDD_MODEL'') = 2"
    using a b c n
      dispatch_twice_two_children [where execute_processor = example_processor
        and task_id = "''process_prd''" and s = store_seeded and pid = 1 and a = prd_artifact
        and r = "JObj [(''entities'', JArr [])]"]
    by simp
  have sch: "length (children
        (snd (SchemaGeneratorOperator_execute example_processor ''generate_schemas''
           (snd (SchemaGeneratorOperator_execute example_processor ''generate_schemas''
              store_typespec 4)) 4)) 4 ''ZOD_SCHEMA'') = 2
   \<and> length (children
        (snd (SchemaGeneratorOperator_execute example_processor ''generate_schemas''
           (snd (SchemaGeneratorOperator_execute example_processor ''generate_schemas''
              store_typespec 4)) 4)) 4 ''DB_SCHEMA'') = 2"
    using a' b' c' z d n'
      dispatch_twice_two_children [where execute_processor = example_processor
        and task_id = "''generate_schemas''" and s = store_typespec and pid = 4
        and a = typespec_artifact
        and result = "JObj [(''zod_schema'', JStr ''z''), (''db_schema'', JStr ''d'')]"
        and z = "JStr ''z''" and d = "JStr ''d''"]
    by simp
  show ?thesis using a a' prd sch by simp
qed






end
